theory Spec2Isabelle
  imports Complex_Main
begin

section \<open>Values, dictionaries and data frames\<close>

text \<open>
  The script \<^verbatim>\<open>paper/figures/generate_charts.py\<close> builds its tables from dictionary
  literals. A cell holds a Python \<^verbatim>\<open>int\<close>, a \<^verbatim>\<open>float\<close> or a \<^verbatim>\<open>str\<close>; a key that
  a row lacks is filled with \<^verbatim>\<open>NaN\<close> by the table constructor. Every float of the
  script is a decimal literal of at most three digits and no arithmetic is done on
  floats, so a float is modelled by the real number its literal denotes.
\<close>

datatype val = IntV int | FloatV real | StrV string | NaN

text \<open>A dictionary literal, in insertion order; its keys are distinct in every literal.\<close>

type_synonym pydict = "(string \<times> val) list"

text \<open>A data frame is column-major: the column names in order, each with its cells.\<close>

type_synonym dataframe = "(string \<times> val list) list"

text \<open>Python exceptions are values: the class name and the message.\<close>

datatype exn = Exn string string

definition keys_in_order :: "pydict list \<Rightarrow> string list" where
  "keys_in_order rs = rev (remdups (rev (concat (map (map fst) rs))))"

definition cell :: "pydict \<Rightarrow> string \<Rightarrow> val" where
  "cell r c = (case map_of r c of Some v \<Rightarrow> v | None \<Rightarrow> NaN)"

text \<open>\<^verbatim>\<open>pd.DataFrame([{...}, ...])\<close>: one row per dictionary, the columns in order of
  first appearance, \<^verbatim>\<open>NaN\<close> where a row has no such key. It never raises.\<close>

definition DataFrame :: "pydict list \<Rightarrow> dataframe" where
  "DataFrame rs = map (\<lambda>c. (c, map (\<lambda>r. cell r c) rs)) (keys_in_order rs)"

text \<open>\<^verbatim>\<open>pd.DataFrame({'x': [70], ...})\<close>: the columns are given directly.\<close>

definition DataFrame_of_columns :: "(string \<times> val list) list \<Rightarrow> dataframe" where
  "DataFrame_of_columns cs = cs"

definition columns :: "dataframe \<Rightarrow> string list" where
  "columns df = map fst df"

definition nrows :: "dataframe \<Rightarrow> nat" where
  "nrows df = (case df of [] \<Rightarrow> 0 | (c, vs) # rest \<Rightarrow> length vs)"

definition column :: "dataframe \<Rightarrow> string \<Rightarrow> val list" where
  "column df c = (case map_of df c of Some vs \<Rightarrow> vs | None \<Rightarrow> [])"

text \<open>The rows of a frame, each as the dictionary of its cells.\<close>

definition row_at :: "dataframe \<Rightarrow> nat \<Rightarrow> pydict" where
  "row_at df i = map (\<lambda>(c, vs). (c, vs ! i)) df"

definition rows_of :: "dataframe \<Rightarrow> pydict list" where
  "rows_of df = map (row_at df) [0..<nrows df]"

text \<open>\<^verbatim>\<open>df[c] = vs\<close>: replaces the column in place when it exists, appends it otherwise.\<close>

fun set_column :: "string \<Rightarrow> val list \<Rightarrow> dataframe \<Rightarrow> dataframe" where
  "set_column c vs [] = [(c, vs)]"
| "set_column c vs ((d, ws) # rest) =
     (if d = c then (c, vs) # rest else (d, ws) # set_column c vs rest)"

section \<open>The store of data frames\<close>

text \<open>
  A Python variable holds a reference to a frame, and a chart keeps the reference it
  was given, not a copy. The store is the list of the frames allocated so far; an
  address is an index into it. \<^verbatim>\<open>copy()\<close> allocates a new frame, a column assignment
  changes the frame at the address in place.
\<close>

type_synonym addr = nat
type_synonym heap = "dataframe list"

definition new_frame :: "dataframe \<Rightarrow> heap \<Rightarrow> addr \<times> heap" where
  "new_frame df h = (length h, h @ [df])"

definition copy_frame :: "addr \<Rightarrow> heap \<Rightarrow> addr \<times> heap" where
  "copy_frame a h = new_frame (h ! a) h"

definition setitem :: "addr \<Rightarrow> string \<Rightarrow> val list \<Rightarrow> heap \<Rightarrow> heap" where
  "setitem a c vs h = h[a := set_column c vs (h ! a)]"

text \<open>\<^verbatim>\<open>df[c] = v\<close> with a scalar: the value is repeated on every row.\<close>

definition setitem_scalar :: "addr \<Rightarrow> string \<Rightarrow> val \<Rightarrow> heap \<Rightarrow> heap" where
  "setitem_scalar a c v h = setitem a c (replicate (nrows (h ! a)) v) h"

section \<open>The label text of line 110\<close>

definition digit_char :: "nat \<Rightarrow> char" where
  "digit_char n = ''0123456789'' ! n"

fun str_nat :: "nat \<Rightarrow> string" where
  "str_nat n = (if n < 10 then [digit_char n] else str_nat (n div 10) @ [digit_char (n mod 10)])"

definition str_int :: "int \<Rightarrow> string" where
  "str_int i = (if i < 0 then CHR ''-'' # str_nat (nat (- i)) else str_nat (nat i))"

text \<open>
  What an f-string field \<^verbatim>\<open>{v}\<close> prints. The decimal form of a float is the work of
  Python's shortest-round-trip printer, which is not modelled: it is the parameter
  \<open>fr\<close>. The script never formats a float this way.
\<close>

fun format_val :: "(real \<Rightarrow> string) \<Rightarrow> val \<Rightarrow> string" where
  "format_val fr (IntV i) = str_int i"
| "format_val fr (FloatV x) = fr x"
| "format_val fr (StrV s) = s"
| "format_val fr NaN = ''nan''"

text \<open>\<^verbatim>\<open>v > 1\<close>: a string cannot be compared with an int, a NaN compares false.\<close>

fun greater_than_one :: "val \<Rightarrow> exn + bool" where
  "greater_than_one (IntV i) = Inr (i > 1)"
| "greater_than_one (FloatV x) = Inr (x > 1)"
| "greater_than_one (StrV s) =
     Inl (Exn ''TypeError'' ''> not supported between instances of str and int'')"
| "greater_than_one NaN = Inr False"

definition getitem :: "pydict \<Rightarrow> string \<Rightarrow> exn + val" where
  "getitem r k = (case map_of r k of None \<Rightarrow> Inl (Exn ''KeyError'' k) | Some v \<Rightarrow> Inr v)"

text \<open>
  \<^verbatim>\<open>lambda r: f"{r['papers']} paper{'s' if r['papers']>1 else ''}, Q={r['quality']}"\<close>
\<close>

definition info_text :: "(real \<Rightarrow> string) \<Rightarrow> pydict \<Rightarrow> exn + string" where
  "info_text fr r =
     (case getitem r ''papers'' of Inl e \<Rightarrow> Inl e | Inr p \<Rightarrow>
      (case greater_than_one p of Inl e \<Rightarrow> Inl e | Inr plural \<Rightarrow>
       (case getitem r ''quality'' of Inl e \<Rightarrow> Inl e | Inr q \<Rightarrow>
          Inr (format_val fr p @ '' paper'' @ (if plural then ''s'' else '''')
               @ '', Q='' @ format_val fr q))))"

text \<open>\<^verbatim>\<open>df.apply(f, axis=1)\<close>: \<open>f\<close> on every row in order; the first exception ends it.\<close>

fun collect :: "(exn + 'a) list \<Rightarrow> exn + 'a list" where
  "collect [] = Inr []"
| "collect (x # xs) =
     (case x of Inl e \<Rightarrow> Inl e | Inr v \<Rightarrow>
      (case collect xs of Inl e \<Rightarrow> Inl e | Inr vs \<Rightarrow> Inr (v # vs)))"

definition apply_rows :: "(pydict \<Rightarrow> exn + string) \<Rightarrow> dataframe \<Rightarrow> exn + val list" where
  "apply_rows f df =
     (case collect (map f (rows_of df)) of Inl e \<Rightarrow> Inl e | Inr ss \<Rightarrow> Inr (map StrV ss))"

section \<open>Charts\<close>

text \<open>
  A chart of the plotting library is a declarative value: a reference to its data, a
  mark with its style properties, the channels of its encoding, and its own
  properties. Building one makes no check against the data it refers to.
\<close>

datatype pval = PNum real | PStr string | PNums "real list" | PNull
  | PDict "(string \<times> pval) list"

datatype vtype = Quantitative | Nominal | Ordinal | Temporal

text \<open>\<^verbatim>\<open>sort=[...]\<close> is an explicit list of categories;
  \<^verbatim>\<open>alt.EncodingSortField(field=f, order=o)\<close> sorts the categories by another field.\<close>

datatype sort_order = Ascending | Descending

datatype sort_spec = SortList "string list" | EncodingSortField string sort_order

record channel =
  ch_field :: string
  ch_type :: "vtype option"
  ch_title :: "string option"
  ch_domain :: "(real \<times> real) option"
  ch_sort :: "sort_spec option"
  ch_range :: "string list option"
  ch_format :: "string option"
  ch_axis :: "(string \<times> pval) list"

text \<open>The shorthand \<^verbatim>\<open>'field:T'\<close>: the field name, then the type letter after the
  colon.\<close>

definition type_of_code :: "string \<Rightarrow> vtype option" where
  "type_of_code s =
     (if s = '':Q'' then Some Quantitative else if s = '':N'' then Some Nominal
      else if s = '':O'' then Some Ordinal else if s = '':T'' then Some Temporal
      else None)"

definition shorthand :: "string \<Rightarrow> channel" where
  "shorthand s =
     \<lparr>ch_field = takeWhile (\<lambda>c. c \<noteq> CHR '':'') s,
      ch_type = type_of_code (dropWhile (\<lambda>c. c \<noteq> CHR '':'') s),
      ch_title = None, ch_domain = None, ch_sort = None, ch_range = None,
      ch_format = None, ch_axis = []\<rparr>"

text \<open>A layer is one chart with one mark; \<open>'d\<close> is what stands for its data: an address
  while the script runs, the frame itself once the figure is handed to the exporter.\<close>

record 'd layer =
  l_data :: 'd
  l_mark :: string
  l_mark_props :: "(string \<times> pval) list"
  l_encoding :: "(string \<times> channel) list"
  l_props :: "(string \<times> pval) list"

record 'd figure =
  f_layers :: "'d layer list"
  f_props :: "(string \<times> pval) list"
  f_config :: "(string \<times> (string \<times> pval) list) list"

definition Chart :: "'d \<Rightarrow> 'd layer" where
  "Chart d = \<lparr>l_data = d, l_mark = [], l_mark_props = [], l_encoding = [], l_props = []\<rparr>"

definition mark :: "string \<Rightarrow> (string \<times> pval) list \<Rightarrow> 'd layer \<Rightarrow> 'd layer" where
  "mark kind ps c = c\<lparr>l_mark := kind, l_mark_props := ps\<rparr>"

definition encode :: "(string \<times> channel) list \<Rightarrow> 'd layer \<Rightarrow> 'd layer" where
  "encode chs c = c\<lparr>l_encoding := l_encoding c @ chs\<rparr>"

definition properties :: "(string \<times> pval) list \<Rightarrow> 'd layer \<Rightarrow> 'd layer" where
  "properties ps c = c\<lparr>l_props := l_props c @ ps\<rparr>"

text \<open>\<^verbatim>\<open>a + b\<close> on two charts overlays them; \<^verbatim>\<open>(a + b) + c\<close> appends \<^verbatim>\<open>c\<close> to the
  overlay.\<close>

definition chart_add :: "'d layer \<Rightarrow> 'd layer \<Rightarrow> 'd figure" where
  "chart_add a b = \<lparr>f_layers = [a, b], f_props = [], f_config = []\<rparr>"

definition layer_add :: "'d figure \<Rightarrow> 'd layer \<Rightarrow> 'd figure" where
  "layer_add f c = f\<lparr>f_layers := f_layers f @ [c]\<rparr>"

definition figure_properties :: "(string \<times> pval) list \<Rightarrow> 'd figure \<Rightarrow> 'd figure" where
  "figure_properties ps f = f\<lparr>f_props := f_props f @ ps\<rparr>"

text \<open>\<^verbatim>\<open>configure(...)\<close>, \<^verbatim>\<open>configure_axis(...)\<close>, \<^verbatim>\<open>configure_legend(...)\<close> and
  \<^verbatim>\<open>configure_view(...)\<close>: the part configured (\<open>''top''\<close> for the first), and its
  options.\<close>

definition configure :: "string \<Rightarrow> (string \<times> pval) list \<Rightarrow> 'd figure \<Rightarrow> 'd figure" where
  "configure part ps f = f\<lparr>f_config := f_config f @ [(part, ps)]\<rparr>"

definition Title :: "string \<Rightarrow> string \<Rightarrow> pval" where
  "Title t sub = PDict [(''text'', PStr t), (''subtitle'', PStr sub)]"

section \<open>The literals of the script\<close>

definition quality_noise_rows :: "pydict list" where
  "quality_noise_rows =
   [[(''quality'', IntV 50), (''noise'', StrV ''Low (SD=15)''), (''probability'', FloatV 0.2), (''order'', IntV 1)],
    [(''quality'', IntV 60), (''noise'', StrV ''Low (SD=15)''), (''probability'', FloatV 2.8), (''order'', IntV 1)],
    [(''quality'', IntV 70), (''noise'', StrV ''Low (SD=15)''), (''probability'', FloatV 26.8), (''order'', IntV 1)],
    [(''quality'', IntV 80), (''noise'', StrV ''Low (SD=15)''), (''probability'', FloatV 66.7), (''order'', IntV 1)],
    [(''quality'', IntV 90), (''noise'', StrV ''Low (SD=15)''), (''probability'', FloatV 93.9), (''order'', IntV 1)],
    [(''quality'', IntV 50), (''noise'', StrV ''Medium (SD=30)''), (''probability'', FloatV 3.4), (''order'', IntV 2)],
    [(''quality'', IntV 60), (''noise'', StrV ''Medium (SD=30)''), (''probability'', FloatV 11.0), (''order'', IntV 2)],
    [(''quality'', IntV 70), (''noise'', StrV ''Medium (SD=30)''), (''probability'', FloatV 24.3), (''order'', IntV 2)],
    [(''quality'', IntV 80), (''noise'', StrV ''Medium (SD=30)''), (''probability'', FloatV 46.1), (''order'', IntV 2)],
    [(''quality'', IntV 90), (''noise'', StrV ''Medium (SD=30)''), (''probability'', FloatV 67.7), (''order'', IntV 2)],
    [(''quality'', IntV 50), (''noise'', StrV ''High (SD=45)''), (''probability'', FloatV 7.0), (''order'', IntV 3)],
    [(''quality'', IntV 60), (''noise'', StrV ''High (SD=45)''), (''probability'', FloatV 13.6), (''order'', IntV 3)],
    [(''quality'', IntV 70), (''noise'', StrV ''High (SD=45)''), (''probability'', FloatV 23.8), (''order'', IntV 3)],
    [(''quality'', IntV 80), (''noise'', StrV ''High (SD=45)''), (''probability'', FloatV 37.6), (''order'', IntV 3)],
    [(''quality'', IntV 90), (''noise'', StrV ''High (SD=45)''), (''probability'', FloatV 51.6), (''order'', IntV 3)]]"

definition strategy_rows :: "pydict list" where
  "strategy_rows =
   [[(''strategy'', StrV ''Two Very Good''), (''expected'', FloatV 0.82), (''papers'', IntV 2), (''quality'', IntV 78)],
    [(''strategy'', StrV ''Three Decent''), (''expected'', FloatV 0.60), (''papers'', IntV 3), (''quality'', IntV 68)],
    [(''strategy'', StrV ''Two Good''), (''expected'', FloatV 0.57), (''papers'', IntV 2), (''quality'', IntV 72)],
    [(''strategy'', StrV ''One Excellent''), (''expected'', FloatV 0.56), (''papers'', IntV 1), (''quality'', IntV 85)]]"

definition threshold_line :: "'d \<Rightarrow> 'd layer" where
  "threshold_line d =
     encode [(''x'', shorthand ''x:Q'')]
       (mark ''rule''
          [(''strokeDash'', PNums [6, 4]), (''color'', PStr ''#888888''), (''strokeWidth'', PNum 1.5)]
          (Chart d))"

definition threshold_label :: "'d \<Rightarrow> 'd layer" where
  "threshold_label d =
     encode [(''x'', shorthand ''x:Q''), (''y'', shorthand ''y:Q''), (''text'', shorthand ''text:N'')]
       (mark ''text''
          [(''align'', PStr ''left''), (''dx'', PNum 5), (''fontSize'', PNum 11), (''color'', PStr ''#666666'')]
          (Chart d))"

definition quality_noise_chart :: "'d \<Rightarrow> 'd layer" where
  "quality_noise_chart d =
     properties
       [(''width'', PNum 450), (''height'', PNum 300),
        (''title'', Title ''How Noise Redistributes Acceptance''
                      ''Good papers lose acceptance probability, bad papers gain'')]
       (encode
          [(''x'', (shorthand ''quality:Q'')
                    \<lparr>ch_title := Some ''True Paper Quality'', ch_domain := Some (45, 95)\<rparr>),
           (''y'', (shorthand ''probability:Q'')
                    \<lparr>ch_title := Some ''Acceptance Probability (%)'', ch_domain := Some (0, 100)\<rparr>),
           (''color'', (shorthand ''noise:N'')
                    \<lparr>ch_title := Some ''Reviewer Noise'',
                     ch_sort := Some (SortList [''Low (SD=15)'', ''Medium (SD=30)'', ''High (SD=45)'']),
                     ch_range := Some [''#2563eb'', ''#9333ea'', ''#dc2626'']\<rparr>)]
          (mark ''line''
             [(''point'', PDict [(''size'', PNum 80)]), (''strokeWidth'', PNum 2.5)]
             (Chart d)))"

definition fig1 :: "'d \<Rightarrow> 'd \<Rightarrow> 'd \<Rightarrow> 'd figure" where
  "fig1 qd ld td =
     configure ''legend'' [(''labelFontSize'', PNum 11), (''titleFontSize'', PNum 12)]
       (configure ''axis'' [(''labelFontSize'', PNum 11), (''titleFontSize'', PNum 12)]
          (configure ''top'' [(''font'', PStr ''Helvetica'')]
             (layer_add (chart_add (quality_noise_chart qd) (threshold_line ld))
                (threshold_label td))))"

definition strategy_sort :: "sort_spec" where
  "strategy_sort = EncodingSortField ''expected'' Descending"

definition bars :: "'d \<Rightarrow> 'd layer" where
  "bars d =
     encode
       [(''x'', (shorthand ''strategy:N'')
                 \<lparr>ch_title := Some ''Research Strategy (Fixed Total Effort)'',
                  ch_sort := Some strategy_sort,
                  ch_axis := [(''labelAngle'', PNum 0)]\<rparr>),
        (''y'', (shorthand ''expected:Q'')
                 \<lparr>ch_title := Some ''Expected Publications'', ch_domain := Some (0, 1)\<rparr>)]
       (mark ''bar''
          [(''color'', PStr ''#2563eb''), (''cornerRadiusTopLeft'', PNum 3),
           (''cornerRadiusTopRight'', PNum 3)]
          (Chart d))"

definition text_labels :: "'d \<Rightarrow> 'd layer" where
  "text_labels d =
     encode
       [(''x'', (shorthand ''strategy:N'')\<lparr>ch_sort := Some strategy_sort\<rparr>),
        (''y'', shorthand ''expected:Q''),
        (''text'', (shorthand ''expected:Q'')\<lparr>ch_format := Some ''.2f''\<rparr>)]
       (mark ''text''
          [(''dy'', PNum (- 8)), (''fontSize'', PNum 12), (''fontWeight'', PStr ''bold'')]
          (Chart d))"

definition info_labels :: "'d \<Rightarrow> 'd layer" where
  "info_labels d =
     encode
       [(''x'', (shorthand ''strategy:N'')\<lparr>ch_sort := Some strategy_sort\<rparr>),
        (''y'', shorthand ''y_pos:Q''),
        (''text'', shorthand ''info:N'')]
       (mark ''text'' [(''fontSize'', PNum 10), (''color'', PStr ''white'')] (Chart d))"

definition fig2_subtitle :: string where
  "fig2_subtitle = ''Lower quality strategy yields 46% more expected publications''"

definition fig2 :: "'d \<Rightarrow> 'd \<Rightarrow> 'd figure" where
  "fig2 sd idata =
     configure ''view'' [(''stroke'', PNull)]
       (configure ''axis'' [(''labelFontSize'', PNum 11), (''titleFontSize'', PNum 12)]
          (configure ''top'' [(''font'', PStr ''Helvetica'')]
             (figure_properties
                [(''width'', PNum 400), (''height'', PNum 300),
                 (''title'', Title ''Perverse Incentives: Quantity Over Quality'' fig2_subtitle)]
                (layer_add (chart_add (bars sd) (text_labels sd)) (info_labels idata)))))"

section \<open>The script up to its exports (lines 11 to 136)\<close>

text \<open>
  The state after line 136: the store, the addresses held by the three named frame
  variables, and the two figures. Charts are built after the frames they refer to;
  line 109 copies \<^verbatim>\<open>strategy_data\<close> and lines 110 and 111 assign two columns of the
  copy. An exception of the lambda of line 110 would end the script there.
\<close>

record program =
  p_heap :: heap
  p_quality_noise_data :: addr
  p_strategy_data :: addr
  p_info_data :: addr
  p_fig1 :: "addr figure"
  p_fig2 :: "addr figure"

definition build :: "(real \<Rightarrow> string) \<Rightarrow> exn + program" where
  "build fr =
     (let (quality_noise_data, h1) = new_frame (DataFrame quality_noise_rows) [];
          (line_data, h2) = new_frame (DataFrame_of_columns [(''x'', [IntV 70])]) h1;
          (label_data, h3) =
             new_frame (DataFrame_of_columns
                [(''x'', [IntV 70]), (''y'', [IntV 92]), (''text'', [StrV ''Threshold''])]) h2;
          figure1 = fig1 quality_noise_data line_data label_data;
          (strategy_data, h4) = new_frame (DataFrame strategy_rows) h3;
          (info_data, h5) = copy_frame strategy_data h4
      in case apply_rows (info_text fr) (h5 ! info_data) of
           Inl e \<Rightarrow> Inl e
         | Inr infos \<Rightarrow>
             (let h6 = setitem info_data ''info'' infos h5;
                  h7 = setitem_scalar info_data ''y_pos'' (FloatV 0.08) h6
              in Inr \<lparr>p_heap = h7, p_quality_noise_data = quality_noise_data,
                      p_strategy_data = strategy_data, p_info_data = info_data,
                      p_fig1 = figure1,
                      p_fig2 = fig2 strategy_data info_data\<rparr>))"

section \<open>What a figure shows\<close>

text \<open>
  The order of the categories on an axis or in a legend is decided by the channel's
  \<^verbatim>\<open>sort\<close>, as the grammar of the plotting library defines it. With an explicit list the
  categories present in the data come in the order of the list, and a category the
  list does not name comes after them; a listed category absent from the data is not
  shown. With a sort field the categories are ordered by the aggregate of that field
  over the rows of each category; the aggregate is the sum for a stacked mark and the
  minimum otherwise, so it is a parameter here. Ties keep the order of the data.
\<close>

definition distinct_in_order :: "'a list \<Rightarrow> 'a list" where
  "distinct_in_order xs = rev (remdups (rev xs))"

fun num_of :: "val \<Rightarrow> real option" where
  "num_of (IntV i) = Some (of_int i)"
| "num_of (FloatV x) = Some x"
| "num_of (StrV s) = None"
| "num_of NaN = None"

datatype agg_op = OpSum | OpMin

text \<open>A category with no numeric value of the sort field counts as 0.\<close>

definition aggregate :: "agg_op \<Rightarrow> real list \<Rightarrow> real" where
  "aggregate op xs =
     (case xs of [] \<Rightarrow> 0
      | x # rest \<Rightarrow> (case op of OpSum \<Rightarrow> sum_list xs | OpMin \<Rightarrow> fold min rest x))"

definition values_of_category :: "dataframe \<Rightarrow> string \<Rightarrow> string \<Rightarrow> val \<Rightarrow> real list" where
  "values_of_category df x f c =
     List.map_filter num_of
       (map snd (filter (\<lambda>(a, b). a = c) (zip (column df x) (column df f))))"

definition field_sorted_domain ::
  "agg_op \<Rightarrow> dataframe \<Rightarrow> string \<Rightarrow> string \<Rightarrow> sort_order \<Rightarrow> val list" where
  "field_sorted_domain op df x f ord =
     (case ord of
        Ascending \<Rightarrow>
          sort_key (\<lambda>c. aggregate op (values_of_category df x f c))
            (distinct_in_order (column df x))
      | Descending \<Rightarrow>
          sort_key (\<lambda>c. - aggregate op (values_of_category df x f c))
            (distinct_in_order (column df x)))"

definition listed_domain :: "string list \<Rightarrow> dataframe \<Rightarrow> string \<Rightarrow> val list" where
  "listed_domain srt df x =
     filter (\<lambda>v. v \<in> set (column df x)) (map StrV srt)
     @ filter (\<lambda>v. v \<notin> set (map StrV srt)) (distinct_in_order (column df x))"

text \<open>The ordered categories of a channel of a layer; \<open>None\<close> when the layer has no such
  channel or the channel gives no \<^verbatim>\<open>sort\<close> (the default order is not modelled).\<close>

definition channel_domain :: "agg_op \<Rightarrow> dataframe layer \<Rightarrow> string \<Rightarrow> val list option" where
  "channel_domain op l name =
     (case map_of (l_encoding l) name of
        None \<Rightarrow> None
      | Some ch \<Rightarrow>
          (case ch_sort ch of
             None \<Rightarrow> None
           | Some (SortList srt) \<Rightarrow> Some (listed_domain srt (l_data l) (ch_field ch))
           | Some (EncodingSortField f ord) \<Rightarrow>
               Some (field_sorted_domain op (l_data l) (ch_field ch) f ord)))"

text \<open>The channels of a figure that carry an explicit list of categories: the data
  of the layer, the field, and the list.\<close>

definition listed_channels :: "'d layer \<Rightarrow> ('d \<times> string \<times> string list) list" where
  "listed_channels l =
     List.map_filter
       (\<lambda>(name, ch). case ch_sort ch of
                        Some (SortList srt) \<Rightarrow> Some (l_data l, ch_field ch, srt)
                      | Some (EncodingSortField f ord) \<Rightarrow> None
                      | None \<Rightarrow> None)
       (l_encoding l)"

text \<open>The layers of a figure share the scale of a channel; its domain is the first
  one a layer declares.\<close>

definition scale_domain :: "'d figure \<Rightarrow> string \<Rightarrow> (real \<times> real) option" where
  "scale_domain fig name =
     (case List.map_filter
             (\<lambda>l. case map_of (l_encoding l) name of None \<Rightarrow> None | Some ch \<Rightarrow> ch_domain ch)
             (f_layers fig) of
        [] \<Rightarrow> None
      | d # rest \<Rightarrow> Some d)"

definition channel_values :: "dataframe layer \<Rightarrow> string \<Rightarrow> val list" where
  "channel_values l name =
     (case map_of (l_encoding l) name of
        None \<Rightarrow> []
      | Some ch \<Rightarrow> column (l_data l) (ch_field ch))"

definition in_range :: "real \<times> real \<Rightarrow> val \<Rightarrow> bool" where
  "in_range d v = (case num_of v of None \<Rightarrow> False | Some x \<Rightarrow> fst d \<le> x \<and> x \<le> snd d)"

definition encoded_fields :: "'d layer \<Rightarrow> string list" where
  "encoded_fields l = map (\<lambda>(name, ch). ch_field ch) (l_encoding l)"

section \<open>The exports (lines 138 to 147)\<close>

text \<open>
  A figure is handed to the exporter with the frames its layers refer to, read from
  the store at that moment. The format follows from the extension of the path. What
  the exporter does (rendering, opening and writing the file) is outside the script:
  it is a parameter that, for each request, either returns the bytes it wrote or
  raises. The script installs no exception handler: an exception ends the run where it
  is raised.
\<close>

definition resolve_layer :: "heap \<Rightarrow> addr layer \<Rightarrow> dataframe layer" where
  "resolve_layer h l =
     \<lparr>l_data = h ! l_data l, l_mark = l_mark l, l_mark_props = l_mark_props l,
      l_encoding = l_encoding l, l_props = l_props l\<rparr>"

definition resolve :: "heap \<Rightarrow> addr figure \<Rightarrow> dataframe figure" where
  "resolve h fig =
     \<lparr>f_layers = map (resolve_layer h) (f_layers fig), f_props = f_props fig,
      f_config = f_config fig\<rparr>"

datatype format = PNG | PDF | SVG | JSON | HTML

definition extension :: "string \<Rightarrow> string" where
  "extension fp = rev (takeWhile (\<lambda>c. c \<noteq> CHR ''.'') (rev fp))"

definition format_of :: "string \<Rightarrow> format option" where
  "format_of fp =
     (let e = extension fp in
      if e = ''png'' then Some PNG else if e = ''pdf'' then Some PDF
      else if e = ''svg'' then Some SVG else if e = ''json'' then Some JSON
      else if e = ''html'' then Some HTML else None)"

record export_request =
  x_figure :: "dataframe figure"
  x_path :: string
  x_format :: format
  x_scale_factor :: real

type_synonym exporter = "export_request \<Rightarrow> exn + string"

text \<open>The world outside: the files by path, the lines printed, and the export
  requests made so far (a record of the run, not something the script reads).\<close>

record world =
  files :: "string \<rightharpoonup> string"
  stdout :: "string list"
  attempted :: "export_request list"

text \<open>The result of a run: the world at the end, or the uncaught exception with the
  world as it was when the exception ended the run.\<close>

type_synonym outcome = "(exn \<times> world) + world"

text \<open>\<^verbatim>\<open>scale_factor\<close> is 1 when \<^verbatim>\<open>save\<close> is called without it.\<close>

definition default_scale_factor :: real where
  "default_scale_factor = 1"

datatype stmt = Print string | Save "addr figure" string real

fun exec :: "exporter \<Rightarrow> heap \<Rightarrow> stmt \<Rightarrow> world \<Rightarrow> outcome" where
  "exec ex h (Print s) w = Inr (w\<lparr>stdout := stdout w @ [s]\<rparr>)"
| "exec ex h (Save fig fp sf) w =
     (case format_of fp of
        None \<Rightarrow> Inl (Exn ''ValueError'' ''Unsupported format'', w)
      | Some fmt \<Rightarrow>
          (let rq = \<lparr>x_figure = resolve h fig, x_path = fp, x_format = fmt,
                     x_scale_factor = sf\<rparr>
           in case ex rq of
                Inl e \<Rightarrow> Inl (e, w\<lparr>attempted := attempted w @ [rq]\<rparr>)
              | Inr bytes \<Rightarrow>
                  Inr (w\<lparr>files := (files w)(fp \<mapsto> bytes),
                        attempted := attempted w @ [rq]\<rparr>)))"

fun run :: "exporter \<Rightarrow> heap \<Rightarrow> stmt list \<Rightarrow> world \<Rightarrow> outcome" where
  "run ex h [] w = Inr w"
| "run ex h (s # ss) w =
     (case exec ex h s w of Inl x \<Rightarrow> Inl x | Inr w' \<Rightarrow> run ex h ss w')"

definition export_statements :: "program \<Rightarrow> stmt list" where
  "export_statements p =
     [Print ''Saving Quality x Noise chart...'',
      Save (p_fig1 p) ''paper/figures/quality-x-noise.png'' 2.0,
      Save (p_fig1 p) ''paper/figures/quality-x-noise.pdf'' default_scale_factor,
      Print ''Saving Strategy Comparison chart...'',
      Save (p_fig2 p) ''paper/figures/strategy-comparison.png'' 2.0,
      Save (p_fig2 p) ''paper/figures/strategy-comparison.pdf'' default_scale_factor,
      Print ''Done! Charts saved to paper/figures/'']"

definition main :: "(real \<Rightarrow> string) \<Rightarrow> exporter \<Rightarrow> world \<Rightarrow> outcome" where
  "main fr ex w =
     (case build fr of
        Inl e \<Rightarrow> Inl (e, w)
      | Inr p \<Rightarrow> run ex (p_heap p) (export_statements p) w)"

text \<open>The export requests a statement list makes when nothing fails.\<close>

fun requests :: "heap \<Rightarrow> stmt list \<Rightarrow> export_request list" where
  "requests h [] = []"
| "requests h (Print s # ss) = requests h ss"
| "requests h (Save fig fp sf # ss) =
     (case format_of fp of
        None \<Rightarrow> []
      | Some fmt \<Rightarrow>
          \<lparr>x_figure = resolve h fig, x_path = fp, x_format = fmt, x_scale_factor = sf\<rparr>
          # requests h ss)"

definition planned :: "(real \<Rightarrow> string) \<Rightarrow> export_request list" where
  "planned fr = (case build fr of Inl e \<Rightarrow> [] | Inr p \<Rightarrow> requests (p_heap p) (export_statements p))"

definition final_world :: "outcome \<Rightarrow> world" where
  "final_world r = (case r of Inl (e, w) \<Rightarrow> w | Inr w \<Rightarrow> w)"

definition raised :: "outcome \<Rightarrow> exn option" where
  "raised r = (case r of Inl (e, w) \<Rightarrow> Some e | Inr w \<Rightarrow> None)"

section \<open>The frames of the script, evaluated\<close>

definition strategy_frame :: dataframe where
  "strategy_frame =
     [(''strategy'', [StrV ''Two Very Good'', StrV ''Three Decent'', StrV ''Two Good'',
                      StrV ''One Excellent'']),
      (''expected'', [FloatV 0.82, FloatV 0.60, FloatV 0.57, FloatV 0.56]),
      (''papers'', [IntV 2, IntV 3, IntV 2, IntV 1]),
      (''quality'', [IntV 78, IntV 68, IntV 72, IntV 85])]"

definition info_frame :: dataframe where
  "info_frame =
     strategy_frame
     @ [(''info'', [StrV ''2 papers, Q=78'', StrV ''3 papers, Q=68'', StrV ''2 papers, Q=72'',
                    StrV ''1 paper, Q=85'']),
        (''y_pos'', [FloatV 0.08, FloatV 0.08, FloatV 0.08, FloatV 0.08])]"

definition quality_noise_frame :: dataframe where
  "quality_noise_frame =
     [(''quality'', map IntV [50, 60, 70, 80, 90, 50, 60, 70, 80, 90, 50, 60, 70, 80, 90]),
      (''noise'', map StrV
         [''Low (SD=15)'', ''Low (SD=15)'', ''Low (SD=15)'', ''Low (SD=15)'', ''Low (SD=15)'',
          ''Medium (SD=30)'', ''Medium (SD=30)'', ''Medium (SD=30)'', ''Medium (SD=30)'',
          ''Medium (SD=30)'',
          ''High (SD=45)'', ''High (SD=45)'', ''High (SD=45)'', ''High (SD=45)'',
          ''High (SD=45)'']),
      (''probability'', map FloatV
         [0.2, 2.8, 26.8, 66.7, 93.9, 3.4, 11.0, 24.3, 46.1, 67.7, 7.0, 13.6, 23.8, 37.6, 51.6]),
      (''order'', map IntV [1, 1, 1, 1, 1, 2, 2, 2, 2, 2, 3, 3, 3, 3, 3])]"

definition line_frame :: dataframe where
  "line_frame = [(''x'', [IntV 70])]"

definition label_frame :: dataframe where
  "label_frame = [(''x'', [IntV 70]), (''y'', [IntV 92]), (''text'', [StrV ''Threshold''])]"

definition final_heap :: heap where
  "final_heap = [quality_noise_frame, line_frame, label_frame, strategy_frame, info_frame]"

section \<open>Exporters and worlds to run the script in\<close>

text \<open>An exporter that always succeeds, and one that cannot write the third file, as
  when that file is not writable.\<close>

definition always_ok :: exporter where
  "always_ok rq = Inr (''bytes of '' @ x_path rq)"

definition denies_strategy_png :: exporter where
  "denies_strategy_png rq =
     (if x_path rq = ''paper/figures/strategy-comparison.png''
      then Inl (Exn ''PermissionError''
                 ''[Errno 13] Permission denied: paper/figures/strategy-comparison.png'')
      else Inr (''bytes of '' @ x_path rq))"

definition empty_world :: world where
  "empty_world = \<lparr>files = Map.empty, stdout = [], attempted = []\<rparr>"

text \<open>A world in which the first output file already exists.\<close>

definition stale_world :: world where
  "stale_world =
     \<lparr>files = [''paper/figures/quality-x-noise.png'' \<mapsto> ''old''], stdout = [],
      attempted = []\<rparr>"

text \<open>A float printer for runs of the script; the script never calls it.\<close>

definition plain_repr :: "real \<Rightarrow> string" where
  "plain_repr x = ''?''"

definition exn_class :: "exn \<Rightarrow> string" where
  "exn_class e = (case e of Exn c m \<Rightarrow> c)"

text \<open>The line chart of the first figure with an ordering that names one of the
  three noise levels only, built with the same constructors.\<close>

definition short_list_chart :: "'d \<Rightarrow> 'd layer" where
  "short_list_chart d =
     encode
       [(''x'', shorthand ''quality:Q''), (''y'', shorthand ''probability:Q''),
        (''color'', (shorthand ''noise:N'')\<lparr>ch_sort := Some (SortList [''Low (SD=15)''])\<rparr>)]
       (mark ''line'' [] (Chart d))"

section \<open>Evaluation lemmas\<close>

lemma DataFrame_strategy: "DataFrame strategy_rows = strategy_frame"
  by (simp add: DataFrame_def keys_in_order_def cell_def strategy_rows_def strategy_frame_def)

lemma DataFrame_quality_noise: "DataFrame quality_noise_rows = quality_noise_frame"
  by (simp add: DataFrame_def keys_in_order_def cell_def quality_noise_rows_def
      quality_noise_frame_def)

lemma rows_of_strategy_frame: "rows_of strategy_frame = strategy_rows"
  by (simp add: rows_of_def row_at_def nrows_def strategy_rows_def strategy_frame_def
      upt_conv_Cons)

lemma rows_of_quality_noise_frame: "rows_of quality_noise_frame = quality_noise_rows"
  by (simp add: rows_of_def row_at_def nrows_def quality_noise_rows_def
      quality_noise_frame_def upt_conv_Cons)

lemma info_text_strategy_rows:
  "map (info_text fr) strategy_rows =
     [Inr ''2 papers, Q=78'', Inr ''3 papers, Q=68'', Inr ''2 papers, Q=72'',
      Inr ''1 paper, Q=85'']"
  by (simp add: strategy_rows_def info_text_def getitem_def str_int_def digit_char_def)

lemma nrows_strategy_frame: "nrows strategy_frame = 4"
  by (simp add: nrows_def strategy_frame_def)

lemma set_column_info:
  "set_column ''y_pos'' ys (set_column ''info'' xs strategy_frame)
     = strategy_frame @ [(''info'', xs), (''y_pos'', ys)]"
  by (simp add: strategy_frame_def)

lemma nrows_with_info: "nrows (set_column ''info'' xs strategy_frame) = 4"
  by (simp add: nrows_def strategy_frame_def)

lemma build_result:
  "build fr =
     Inr \<lparr>p_heap = final_heap, p_quality_noise_data = 0, p_strategy_data = 3,
          p_info_data = 4, p_fig1 = fig1 0 1 2, p_fig2 = fig2 3 4\<rparr>"
  by (simp add: build_def new_frame_def copy_frame_def DataFrame_strategy
      DataFrame_quality_noise DataFrame_of_columns_def apply_rows_def
      rows_of_strategy_frame info_text_strategy_rows setitem_def setitem_scalar_def
      nth_append set_column_info nrows_with_info final_heap_def line_frame_def
      label_frame_def info_frame_def eval_nat_numeral)

lemma columns_strategy_frame:
  "columns strategy_frame = [''strategy'', ''expected'', ''papers'', ''quality'']"
  by (simp add: columns_def strategy_frame_def)

lemma columns_info_frame:
  "columns info_frame = [''strategy'', ''expected'', ''papers'', ''quality'', ''info'', ''y_pos'']"
  by (simp add: columns_def info_frame_def strategy_frame_def)

lemma fig2_data: "map l_data (f_layers (fig2 a b)) = [a, a, b]"
  by (simp add: fig2_def layer_add_def chart_add_def configure_def figure_properties_def
      bars_def text_labels_def info_labels_def mark_def encode_def Chart_def)

lemma fig1_data: "map l_data (f_layers (fig1 a b c)) = [a, b, c]"
  by (simp add: fig1_def layer_add_def chart_add_def configure_def
      quality_noise_chart_def threshold_line_def threshold_label_def mark_def encode_def
      properties_def Chart_def)

lemma resolve_layers: "f_layers (resolve h fig) = map (resolve_layer h) (f_layers fig)"
  by (simp add: resolve_def)

lemma fig2_layers: "f_layers (fig2 a b) = [bars a, text_labels a, info_labels b]"
  by (simp add: fig2_def layer_add_def chart_add_def configure_def figure_properties_def)

lemma fig1_layers: "f_layers (fig1 a b c) = [quality_noise_chart a, threshold_line b, threshold_label c]"
  by (simp add: fig1_def layer_add_def chart_add_def configure_def)

lemma distinct_strategies:
  "distinct_in_order (column strategy_frame ''strategy'') =
     [StrV ''Two Very Good'', StrV ''Three Decent'', StrV ''Two Good'', StrV ''One Excellent'']"
  by (simp add: distinct_in_order_def column_def strategy_frame_def)

lemma strategy_values:
  "map (values_of_category strategy_frame ''strategy'' ''expected'')
     [StrV ''Two Very Good'', StrV ''Three Decent'', StrV ''Two Good'', StrV ''One Excellent'']
   = [[0.82], [0.60], [0.57], [0.56]]"
  by (simp add: values_of_category_def column_def strategy_frame_def List.map_filter_simps)

lemma aggregate_single: "aggregate op [x] = x"
  by (cases op) (simp_all add: aggregate_def)

lemma strategy_domain:
  "field_sorted_domain op strategy_frame ''strategy'' ''expected'' Descending =
     [StrV ''Two Very Good'', StrV ''Three Decent'', StrV ''Two Good'', StrV ''One Excellent'']"
  using strategy_values
  by (simp add: field_sorted_domain_def distinct_strategies aggregate_single)

lemma info_frame_columns:
  "column info_frame ''strategy'' = column strategy_frame ''strategy''"
  "column info_frame ''expected'' = column strategy_frame ''expected''"
  by (simp_all add: column_def info_frame_def strategy_frame_def)

lemma field_sorted_domain_cong:
  "column df x = column df' x \<Longrightarrow> column df f = column df' f \<Longrightarrow>
   field_sorted_domain op df x f ord = field_sorted_domain op df' x f ord"
  by (cases ord) (simp_all add: field_sorted_domain_def values_of_category_def)

lemma info_domain:
  "field_sorted_domain op info_frame ''strategy'' ''expected'' Descending =
     [StrV ''Two Very Good'', StrV ''Three Decent'', StrV ''Two Good'', StrV ''One Excellent'']"
  using field_sorted_domain_cong [OF info_frame_columns] strategy_domain by simp

lemma final_heap_nth:
  "final_heap ! 0 = quality_noise_frame" "final_heap ! 1 = line_frame"
  "final_heap ! 2 = label_frame" "final_heap ! 3 = strategy_frame"
  "final_heap ! 4 = info_frame"
  by (simp_all add: final_heap_def)

lemma x_channels_fig2:
  "map_of (l_encoding (bars a)) ''x'' =
     Some ((shorthand ''strategy:N'')
            \<lparr>ch_title := Some ''Research Strategy (Fixed Total Effort)'',
             ch_sort := Some strategy_sort, ch_axis := [(''labelAngle'', PNum 0)]\<rparr>)"
  "map_of (l_encoding (text_labels a)) ''x'' =
     Some ((shorthand ''strategy:N'')\<lparr>ch_sort := Some strategy_sort\<rparr>)"
  "map_of (l_encoding (info_labels a)) ''x'' =
     Some ((shorthand ''strategy:N'')\<lparr>ch_sort := Some strategy_sort\<rparr>)"
  by (simp_all add: bars_def text_labels_def info_labels_def encode_def mark_def Chart_def)

lemma shorthand_strategy: "ch_field (shorthand ''strategy:N'') = ''strategy''"
  by (simp add: shorthand_def)

lemma layer_data:
  "l_data (bars a) = a" "l_data (text_labels a) = a" "l_data (info_labels a) = a"
  "l_data (quality_noise_chart a) = a" "l_data (threshold_line a) = a"
  "l_data (threshold_label a) = a"
  by (simp_all add: bars_def text_labels_def info_labels_def quality_noise_chart_def
      threshold_line_def threshold_label_def encode_def mark_def properties_def Chart_def)

lemma strategy_expected:
  "map (\<lambda>r. (cell r ''strategy'', cell r ''expected'')) strategy_rows =
     [(StrV ''Two Very Good'', FloatV 0.82), (StrV ''Three Decent'', FloatV 0.60),
      (StrV ''Two Good'', FloatV 0.57), (StrV ''One Excellent'', FloatV 0.56)]"
  by (simp add: strategy_rows_def cell_def)

lemma fig2_x_domains:
  "map (\<lambda>l. channel_domain op (resolve_layer final_heap l) ''x'') (f_layers (fig2 3 4)) =
     [Some [StrV ''Two Very Good'', StrV ''Three Decent'', StrV ''Two Good'', StrV ''One Excellent''],
      Some [StrV ''Two Very Good'', StrV ''Three Decent'', StrV ''Two Good'', StrV ''One Excellent''],
      Some [StrV ''Two Very Good'', StrV ''Three Decent'', StrV ''Two Good'', StrV ''One Excellent'']]"
  by (simp add: fig2_layers channel_domain_def resolve_layer_def x_channels_fig2 layer_data
      final_heap_nth strategy_sort_def shorthand_strategy strategy_domain info_domain)

lemma rows_of_small_frames:
  "rows_of line_frame = [[(''x'', IntV 70)]]"
  "rows_of label_frame = [[(''x'', IntV 70), (''y'', IntV 92), (''text'', StrV ''Threshold'')]]"
  by (simp_all add: rows_of_def row_at_def nrows_def line_frame_def label_frame_def)

lemma rows_of_info_frame:
  "map (map fst) (rows_of info_frame) =
     [[''strategy'', ''expected'', ''papers'', ''quality'', ''info'', ''y_pos''],
      [''strategy'', ''expected'', ''papers'', ''quality'', ''info'', ''y_pos''],
      [''strategy'', ''expected'', ''papers'', ''quality'', ''info'', ''y_pos''],
      [''strategy'', ''expected'', ''papers'', ''quality'', ''info'', ''y_pos'']]"
  by (simp add: rows_of_def row_at_def nrows_def info_frame_def strategy_frame_def
      upt_conv_Cons)

lemma keys_quality_noise_rows:
  "list_all (\<lambda>r. map fst r = [''quality'', ''noise'', ''probability'', ''order''])
     quality_noise_rows"
  by (simp add: quality_noise_rows_def)

lemma keys_strategy_rows:
  "list_all (\<lambda>r. map fst r = [''strategy'', ''expected'', ''papers'', ''quality''])
     strategy_rows"
  by (simp add: strategy_rows_def)

lemma length_rows: "length quality_noise_rows = 15" "length strategy_rows = 4"
  by (simp_all add: quality_noise_rows_def strategy_rows_def)

lemma encoded_fields_layers:
  "encoded_fields (quality_noise_chart a) = [''quality'', ''probability'', ''noise'']"
  "encoded_fields (threshold_line a) = [''x'']"
  "encoded_fields (threshold_label a) = [''x'', ''y'', ''text'']"
  "encoded_fields (bars a) = [''strategy'', ''expected'']"
  "encoded_fields (text_labels a) = [''strategy'', ''expected'', ''expected'']"
  "encoded_fields (info_labels a) = [''strategy'', ''y_pos'', ''info'']"
  by (simp_all add: encoded_fields_def quality_noise_chart_def threshold_line_def
      threshold_label_def bars_def text_labels_def info_labels_def encode_def mark_def
      properties_def Chart_def shorthand_def)

lemma encoded_fields_resolve: "encoded_fields (resolve_layer h l) = encoded_fields l"
  by (simp add: encoded_fields_def resolve_layer_def)

lemma l_data_resolve: "l_data (resolve_layer h l) = h ! l_data l"
  by (simp add: resolve_layer_def)

lemma all_rows_have:
  assumes "list_all (\<lambda>r. map fst r = ks) rs" and "set fs \<subseteq> set ks"
  shows "list_all (\<lambda>r. list_all (\<lambda>f. f \<in> set (map fst r)) fs) rs"
proof -
  have "list_all (\<lambda>f. f \<in> set (map fst r)) fs" if "r \<in> set rs" for r
  proof -
    from assms(1) that have "map fst r = ks" by (simp add: list_all_iff)
    with assms(2) show ?thesis by (auto simp: list_all_iff)
  qed
  then show ?thesis by (simp add: list_all_iff)
qed

lemma rows_info_keys:
  "list_all (\<lambda>r. map fst r = [''strategy'', ''expected'', ''papers'', ''quality'', ''info'', ''y_pos''])
     (rows_of info_frame)"
  by (simp add: rows_of_def row_at_def nrows_def info_frame_def strategy_frame_def
      upt_conv_Cons)

lemma rows_small_keys:
  "list_all (\<lambda>r. map fst r = [''x'']) (rows_of line_frame)"
  "list_all (\<lambda>r. map fst r = [''x'', ''y'', ''text'']) (rows_of label_frame)"
  by (simp_all add: rows_of_small_frames)

lemma final_heap_Suc0: "final_heap ! Suc 0 = line_frame"
  by (simp add: final_heap_def)

lemma fields_present:
  "list_all (\<lambda>l. list_all (\<lambda>r. list_all (\<lambda>f. f \<in> set (map fst r)) (encoded_fields l))
                    (rows_of (l_data l)))
     (f_layers (resolve final_heap (fig1 0 1 2)) @ f_layers (resolve final_heap (fig2 3 4)))"
  using all_rows_have [OF keys_quality_noise_rows, of "[''quality'', ''probability'', ''noise'']"]
        all_rows_have [OF rows_small_keys(1), of "[''x'']"]
        all_rows_have [OF rows_small_keys(2), of "[''x'', ''y'', ''text'']"]
        all_rows_have [OF keys_strategy_rows, of "[''strategy'', ''expected'']"]
        all_rows_have [OF keys_strategy_rows, of "[''strategy'', ''expected'', ''expected'']"]
        all_rows_have [OF rows_info_keys, of "[''strategy'', ''y_pos'', ''info'']"]
  by (simp add: resolve_layers fig1_layers fig2_layers encoded_fields_resolve
      encoded_fields_layers l_data_resolve layer_data final_heap_nth final_heap_Suc0
      rows_of_strategy_frame rows_of_quality_noise_frame)

lemma length_rows_info: "length (rows_of info_frame) = 4"
  by (simp add: rows_of_def nrows_def info_frame_def strategy_frame_def)

lemma scale_domains:
  "scale_domain (fig1 a b c) ''x'' = Some (45, 95)"
  "scale_domain (fig1 a b c) ''y'' = Some (0, 100)"
  "scale_domain (fig2 a b) ''y'' = Some (0, 1)"
  "scale_domain (fig2 a b) ''x'' = None"
  by (simp_all add: scale_domain_def fig1_layers fig2_layers List.map_filter_simps
      quality_noise_chart_def threshold_line_def threshold_label_def bars_def
      text_labels_def info_labels_def encode_def mark_def properties_def Chart_def
      shorthand_def)

lemma channel_values_fig1:
  "map (\<lambda>l. channel_values l ''x'') (f_layers (resolve final_heap (fig1 0 1 2))) =
     [column quality_noise_frame ''quality'', [IntV 70], [IntV 70]]"
  "map (\<lambda>l. channel_values l ''y'') (f_layers (resolve final_heap (fig1 0 1 2))) =
     [column quality_noise_frame ''probability'', [], [IntV 92]]"
  by (simp_all add: resolve_layers fig1_layers channel_values_def resolve_layer_def
      final_heap_nth final_heap_Suc0 layer_data
      quality_noise_chart_def threshold_line_def threshold_label_def encode_def mark_def
      properties_def Chart_def shorthand_def column_def line_frame_def label_frame_def)

lemma channel_values_fig2:
  "map (\<lambda>l. channel_values l ''y'') (f_layers (resolve final_heap (fig2 3 4))) =
     [[FloatV 0.82, FloatV 0.60, FloatV 0.57, FloatV 0.56],
      [FloatV 0.82, FloatV 0.60, FloatV 0.57, FloatV 0.56],
      [FloatV 0.08, FloatV 0.08, FloatV 0.08, FloatV 0.08]]"
  by (simp add: resolve_layers fig2_layers channel_values_def resolve_layer_def
      final_heap_nth layer_data bars_def text_labels_def info_labels_def encode_def mark_def
      Chart_def shorthand_def column_def info_frame_def strategy_frame_def)

lemma quality_in_range:
  "list_all (in_range (45, 95)) (column quality_noise_frame ''quality'')"
  by (simp add: column_def quality_noise_frame_def in_range_def)

lemma probability_in_range:
  "list_all (in_range (0, 100)) (column quality_noise_frame ''probability'')"
  by (simp add: column_def quality_noise_frame_def in_range_def)

lemma column_lengths:
  "length (column quality_noise_frame ''quality'') = 15"
  "length (column quality_noise_frame ''probability'') = 15"
  by (simp_all add: column_def quality_noise_frame_def)

lemma list_all_via_map: "list_all (\<lambda>l. P (f l)) ls = list_all P (map f ls)"
  by (simp add: list_all_iff)

lemma in_range_small:
  "in_range (45, 95) (IntV 70)" "in_range (0, 100) (IntV 92)"
  "list_all (in_range (0, 1)) [FloatV 0.82, FloatV 0.60, FloatV 0.57, FloatV 0.56]"
  "list_all (in_range (0, 1)) [FloatV 0.08, FloatV 0.08, FloatV 0.08, FloatV 0.08]"
  by (simp_all add: in_range_def)

lemma fig1_within:
  "list_all (\<lambda>l. list_all (in_range (45, 95)) (channel_values l ''x''))
     (f_layers (resolve final_heap (fig1 0 1 2)))"
  "list_all (\<lambda>l. list_all (in_range (0, 100)) (channel_values l ''y''))
     (f_layers (resolve final_heap (fig1 0 1 2)))"
  unfolding list_all_via_map [of "list_all (in_range d)" "\<lambda>l. channel_values l c" for d c]
    channel_values_fig1
  by (simp_all add: quality_in_range probability_in_range in_range_small)

lemma fig2_within:
  "list_all (\<lambda>l. list_all (in_range (0, 1)) (channel_values l ''y''))
     (f_layers (resolve final_heap (fig2 3 4)))"
  unfolding list_all_via_map [of "list_all (in_range d)" "\<lambda>l. channel_values l c" for d c]
    channel_values_fig2
  using in_range_small by simp

lemma fig1_value_counts:
  "map (\<lambda>l. length (channel_values l ''x'')) (f_layers (resolve final_heap (fig1 0 1 2)))
     = [15, 1, 1]"
  "map (\<lambda>l. length (channel_values l ''y'')) (f_layers (resolve final_heap (fig1 0 1 2)))
     = [15, 0, 1]"
  "channel_values (f_layers (resolve final_heap (fig1 0 1 2)) ! 2) ''y'' = [IntV 92]"
proof -
  have "map (\<lambda>l. length (channel_values l ''x'')) (f_layers (resolve final_heap (fig1 0 1 2)))
      = map length (map (\<lambda>l. channel_values l ''x'') (f_layers (resolve final_heap (fig1 0 1 2))))"
    by simp
  then show "map (\<lambda>l. length (channel_values l ''x'')) (f_layers (resolve final_heap (fig1 0 1 2)))
     = [15, 1, 1]"
    unfolding channel_values_fig1 by (simp add: column_lengths)
  have "map (\<lambda>l. length (channel_values l ''y'')) (f_layers (resolve final_heap (fig1 0 1 2)))
      = map length (map (\<lambda>l. channel_values l ''y'') (f_layers (resolve final_heap (fig1 0 1 2))))"
    by simp
  then show "map (\<lambda>l. length (channel_values l ''y'')) (f_layers (resolve final_heap (fig1 0 1 2)))
     = [15, 0, 1]"
    unfolding channel_values_fig1 by (simp add: column_lengths)
  have "length (f_layers (resolve final_heap (fig1 0 1 2))) = 3"
    by (simp add: resolve_layers fig1_layers)
  then have "channel_values (f_layers (resolve final_heap (fig1 0 1 2)) ! 2) ''y''
      = map (\<lambda>l. channel_values l ''y'') (f_layers (resolve final_heap (fig1 0 1 2))) ! 2"
    by simp
  then show "channel_values (f_layers (resolve final_heap (fig1 0 1 2)) ! 2) ''y'' = [IntV 92]"
    unfolding channel_values_fig1 by simp
qed

lemma fig2_title:
  "map_of (f_props (fig2 a b)) ''title'' =
     Some (Title ''Perverse Incentives: Quantity Over Quality''
             ''Lower quality strategy yields 46% more expected publications'')"
  by (simp add: fig2_def configure_def figure_properties_def layer_add_def chart_add_def
      fig2_subtitle_def)

lemma strategy_table:
  "map (\<lambda>r. (cell r ''strategy'', cell r ''expected'', cell r ''quality'')) strategy_rows =
     [(StrV ''Two Very Good'', FloatV 0.82, IntV 78),
      (StrV ''Three Decent'', FloatV 0.60, IntV 68),
      (StrV ''Two Good'', FloatV 0.57, IntV 72),
      (StrV ''One Excellent'', FloatV 0.56, IntV 85)]"
  by (simp add: strategy_rows_def cell_def)

lemma strategy_maxima:
  "Max (set (List.map_filter num_of (column strategy_frame ''expected''))) = 0.82"
  "Max (set (List.map_filter num_of (column strategy_frame ''quality''))) = 85"
  by (simp_all add: column_def strategy_frame_def List.map_filter_simps)

lemma ratio_rounds: "round (100 * ((0.82::real) - 0.56) / 0.56) = 46"
proof -
  have "100 * ((0.82::real) - 0.56) / 0.56 = 325 / 7" by simp
  moreover have "round ((325::real) / 7) = 46"
    unfolding round_def by (rule floor_unique) simp_all
  ultimately show ?thesis by simp
qed

lemma formats:
  "format_of ''paper/figures/quality-x-noise.png'' = Some PNG"
  "format_of ''paper/figures/quality-x-noise.pdf'' = Some PDF"
  "format_of ''paper/figures/strategy-comparison.png'' = Some PNG"
  "format_of ''paper/figures/strategy-comparison.pdf'' = Some PDF"
  by (simp_all add: format_of_def extension_def)

lemma planned_eq:
  "planned fr =
     [\<lparr>x_figure = resolve final_heap (fig1 0 1 2),
       x_path = ''paper/figures/quality-x-noise.png'', x_format = PNG, x_scale_factor = 2\<rparr>,
      \<lparr>x_figure = resolve final_heap (fig1 0 1 2),
       x_path = ''paper/figures/quality-x-noise.pdf'', x_format = PDF, x_scale_factor = 1\<rparr>,
      \<lparr>x_figure = resolve final_heap (fig2 3 4),
       x_path = ''paper/figures/strategy-comparison.png'', x_format = PNG, x_scale_factor = 2\<rparr>,
      \<lparr>x_figure = resolve final_heap (fig2 3 4),
       x_path = ''paper/figures/strategy-comparison.pdf'', x_format = PDF, x_scale_factor = 1\<rparr>]"
  by (simp del: One_nat_def
      add: planned_def build_result export_statements_def formats default_scale_factor_def)

lemma main_eq_run:
  "main fr ex w =
     run ex final_heap
       [Print ''Saving Quality x Noise chart...'',
        Save (fig1 0 1 2) ''paper/figures/quality-x-noise.png'' 2,
        Save (fig1 0 1 2) ''paper/figures/quality-x-noise.pdf'' 1,
        Print ''Saving Strategy Comparison chart...'',
        Save (fig2 3 4) ''paper/figures/strategy-comparison.png'' 2,
        Save (fig2 3 4) ''paper/figures/strategy-comparison.pdf'' 1,
        Print ''Done! Charts saved to paper/figures/''] w"
  by (simp del: One_nat_def
      add: main_def build_result export_statements_def default_scale_factor_def)

lemma main_succeeds:
  assumes "list_all (\<lambda>rq. ex rq = Inr (out rq)) (planned fr)"
  shows "main fr ex w =
           Inr \<lparr>files = (files w)
                   (''paper/figures/quality-x-noise.png'' \<mapsto> out (planned fr ! 0),
                    ''paper/figures/quality-x-noise.pdf'' \<mapsto> out (planned fr ! 1),
                    ''paper/figures/strategy-comparison.png'' \<mapsto> out (planned fr ! 2),
                    ''paper/figures/strategy-comparison.pdf'' \<mapsto> out (planned fr ! 3)),
                 stdout = stdout w @ [''Saving Quality x Noise chart...'',
                                      ''Saving Strategy Comparison chart...'',
                                      ''Done! Charts saved to paper/figures/''],
                 attempted = attempted w @ planned fr\<rparr>"
  using assms unfolding main_eq_run planned_eq
  by (simp del: One_nat_def add: formats Let_def)

lemma planned_summary:
  "map (\<lambda>rq. (x_path rq, x_format rq, x_scale_factor rq)) (planned fr) =
     [(''paper/figures/quality-x-noise.png'', PNG, 2),
      (''paper/figures/quality-x-noise.pdf'', PDF, 1),
      (''paper/figures/strategy-comparison.png'', PNG, 2),
      (''paper/figures/strategy-comparison.pdf'', PDF, 1)]"
  by (simp add: planned_eq)

lemma planned_figures:
  "map x_figure (planned fr) =
     [resolve final_heap (fig1 0 1 2), resolve final_heap (fig1 0 1 2),
      resolve final_heap (fig2 3 4), resolve final_heap (fig2 3 4)]"
  by (simp add: planned_eq)

lemma always_ok_planned:
  "list_all (\<lambda>rq. always_ok rq = Inr (''bytes of '' @ x_path rq)) (planned fr)"
  by (simp add: list_all_iff always_ok_def)

lemma run_fails_at:
  assumes "n < length (requests h ss)"
    and "ex (requests h ss ! n) = Inl e"
    and "\<forall>k<n. \<exists>b. ex (requests h ss ! k) = Inr b"
  shows "\<exists>w'. run ex h ss w = Inl (e, w')
           \<and> attempted w' = attempted w @ take (Suc n) (requests h ss)
           \<and> (\<forall>q. q \<notin> x_path ` set (take n (requests h ss)) \<longrightarrow> files w' q = files w q)"
  using assms
proof (induction ss arbitrary: n w)
  case Nil
  then show ?case by simp
next
  case (Cons s ss)
  show ?case
  proof (cases s)
    case (Print t)
    with Cons.prems have "n < length (requests h ss)" "ex (requests h ss ! n) = Inl e"
      "\<forall>k<n. \<exists>b. ex (requests h ss ! k) = Inr b"
      by simp_all
    from Cons.IH [OF this, of "w\<lparr>stdout := stdout w @ [t]\<rparr>"] Print
    show ?thesis by simp
  next
    case (Save fig fp sf)
    show ?thesis
    proof (cases "format_of fp")
      case None
      with Save Cons.prems(1) show ?thesis by simp
    next
      case (Some fmt)
      let ?rq = "\<lparr>x_figure = resolve h fig, x_path = fp, x_format = fmt, x_scale_factor = sf\<rparr>"
      have rqs: "requests h (s # ss) = ?rq # requests h ss"
        using Save Some by simp
      show ?thesis
      proof (cases n)
        case 0
        with Cons.prems(2) rqs have "ex ?rq = Inl e" by simp
        with Save Some 0 rqs show ?thesis by (simp add: Let_def)
      next
        case (Suc m)
        from Cons.prems(3) Suc rqs obtain b where b: "ex ?rq = Inr b"
          by (metis nth_Cons_0 zero_less_Suc)
        from Cons.prems Suc rqs have m: "m < length (requests h ss)"
          "ex (requests h ss ! m) = Inl e"
          by simp_all
        have prev: "\<forall>k<m. \<exists>b. ex (requests h ss ! k) = Inr b"
        proof (intro allI impI)
          fix k assume "k < m"
          then have "Suc k < n" using Suc by simp
          with Cons.prems(3) rqs show "\<exists>b. ex (requests h ss ! k) = Inr b"
            by (metis nth_Cons_Suc)
        qed
        let ?w = "w\<lparr>files := (files w)(fp \<mapsto> b), attempted := attempted w @ [?rq]\<rparr>"
        from Cons.IH [OF m prev, of ?w] obtain w' where
          r: "run ex h ss ?w = Inl (e, w')"
          and a: "attempted w' = attempted ?w @ take (Suc m) (requests h ss)"
          and f: "\<forall>q. q \<notin> x_path ` set (take m (requests h ss)) \<longrightarrow> files w' q = files ?w q"
          by blast
        have "run ex h (s # ss) w = Inl (e, w')"
          using Save Some b r by (simp add: Let_def)
        moreover have "attempted w' = attempted w @ take (Suc n) (requests h (s # ss))"
          using a Suc rqs by simp
        moreover have "\<forall>q. q \<notin> x_path ` set (take n (requests h (s # ss))) \<longrightarrow>
                         files w' q = files w q"
          using f Suc rqs by simp
        ultimately show ?thesis by blast
      qed
    qed
  qed
qed

lemma planned_requests:
  "planned fr =
     requests final_heap
       [Print ''Saving Quality x Noise chart...'',
        Save (fig1 0 1 2) ''paper/figures/quality-x-noise.png'' 2,
        Save (fig1 0 1 2) ''paper/figures/quality-x-noise.pdf'' 1,
        Print ''Saving Strategy Comparison chart...'',
        Save (fig2 3 4) ''paper/figures/strategy-comparison.png'' 2,
        Save (fig2 3 4) ''paper/figures/strategy-comparison.pdf'' 1,
        Print ''Done! Charts saved to paper/figures/'']"
  by (simp del: One_nat_def
      add: planned_def build_result export_statements_def default_scale_factor_def)

lemma planned_paths_distinct: "distinct (map x_path (planned fr))"
  by (simp add: planned_eq)

lemma denies_strategy_png_planned:
  "denies_strategy_png (planned fr ! 2) =
     Inl (Exn ''PermissionError''
            ''[Errno 13] Permission denied: paper/figures/strategy-comparison.png'')"
  "\<forall>k<2. \<exists>b. denies_strategy_png (planned fr ! k) = Inr b"
  "length (planned fr) = 4"
  by (simp_all add: planned_eq denies_strategy_png_def less_2_cases_iff)

lemma main_denied:
  "raised (main plain_repr denies_strategy_png empty_world) =
     Some (Exn ''PermissionError''
             ''[Errno 13] Permission denied: paper/figures/strategy-comparison.png'')"
  unfolding main_eq_run
  by (simp del: One_nat_def add: formats Let_def denies_strategy_png_def raised_def)

lemma listed_domain_exact:
  assumes "distinct srt" and "set (map StrV srt) = set (column df x)"
  shows "listed_domain srt df x = map StrV srt"
proof -
  have "filter (\<lambda>v. v \<in> set (column df x)) (map StrV srt) = map StrV srt"
    using assms(2) by (metis filter_True)
  moreover have "set (distinct_in_order (column df x)) = set (column df x)"
    by (simp add: distinct_in_order_def)
  then have "filter (\<lambda>v. v \<notin> set (map StrV srt)) (distinct_in_order (column df x)) = []"
    using assms(2) by (simp add: filter_empty_conv)
  ultimately show ?thesis by (simp add: listed_domain_def)
qed

lemma noise_values:
  "distinct_in_order (column quality_noise_frame ''noise'') =
     [StrV ''Low (SD=15)'', StrV ''Medium (SD=30)'', StrV ''High (SD=45)'']"
  by (simp add: distinct_in_order_def column_def quality_noise_frame_def)

lemma noise_set:
  "set (map StrV [''Low (SD=15)'', ''Medium (SD=30)'', ''High (SD=45)'']) =
     set (column quality_noise_frame ''noise'')"
proof -
  have "set (column quality_noise_frame ''noise'') =
          set (distinct_in_order (column quality_noise_frame ''noise''))"
    by (simp add: distinct_in_order_def)
  then show ?thesis unfolding noise_values by simp
qed

lemma listed_channels_layers:
  "listed_channels (quality_noise_chart a) =
     [(a, ''noise'', [''Low (SD=15)'', ''Medium (SD=30)'', ''High (SD=45)''])]"
  "listed_channels (threshold_line a) = []"
  "listed_channels (threshold_label a) = []"
  "listed_channels (bars a) = []"
  "listed_channels (text_labels a) = []"
  "listed_channels (info_labels a) = []"
  by (simp_all add: listed_channels_def List.map_filter_simps quality_noise_chart_def
      threshold_line_def threshold_label_def bars_def text_labels_def info_labels_def
      encode_def mark_def properties_def Chart_def shorthand_def strategy_sort_def)

lemma listed_channels_of_data:
  "List.map_filter
     (\<lambda>(name, ch). case ch_sort ch of
                      Some (SortList srt) \<Rightarrow> Some (h ! a, ch_field ch, srt)
                    | Some (EncodingSortField f ord) \<Rightarrow> None
                    | None \<Rightarrow> None) xs =
   map (\<lambda>(a, f, srt). (h ! a, f, srt))
     (List.map_filter
        (\<lambda>(name, ch). case ch_sort ch of
                         Some (SortList srt) \<Rightarrow> Some (a, ch_field ch, srt)
                       | Some (EncodingSortField f ord) \<Rightarrow> None
                       | None \<Rightarrow> None) xs)"
  by (induction xs) (auto simp: List.map_filter_simps split: option.splits sort_spec.splits)

lemma listed_channels_resolve:
  "listed_channels (resolve_layer h l) =
     map (\<lambda>(a, f, srt). (h ! a, f, srt)) (listed_channels l)"
proof -
  have sel: "l_data (resolve_layer h l) = h ! l_data l"
    "l_encoding (resolve_layer h l) = l_encoding l"
    by (simp_all add: resolve_layer_def)
  show ?thesis
    unfolding listed_channels_def sel by (rule listed_channels_of_data)
qed

lemma color_channel:
  "map_of (l_encoding (quality_noise_chart a)) ''color'' =
     Some ((shorthand ''noise:N'')
            \<lparr>ch_title := Some ''Reviewer Noise'',
             ch_sort := Some (SortList [''Low (SD=15)'', ''Medium (SD=30)'', ''High (SD=45)'']),
             ch_range := Some [''#2563eb'', ''#9333ea'', ''#dc2626'']\<rparr>)"
  by (simp add: quality_noise_chart_def encode_def mark_def properties_def Chart_def)

lemma shorthand_noise: "ch_field (shorthand ''noise:N'') = ''noise''"
  by (simp add: shorthand_def)

lemma legend_domain:
  "channel_domain op (resolve_layer final_heap (quality_noise_chart 0)) ''color'' =
     Some [StrV ''Low (SD=15)'', StrV ''Medium (SD=30)'', StrV ''High (SD=45)'']"
proof -
  have "listed_domain [''Low (SD=15)'', ''Medium (SD=30)'', ''High (SD=45)'']
          quality_noise_frame ''noise'' =
        map StrV [''Low (SD=15)'', ''Medium (SD=30)'', ''High (SD=45)'']"
    by (rule listed_domain_exact [OF _ noise_set]) simp
  then show ?thesis
    by (simp add: channel_domain_def resolve_layer_def color_channel layer_data
        final_heap_nth shorthand_noise)
qed

lemma short_list_listed:
  "listed_channels (short_list_chart a) = [(a, ''noise'', [''Low (SD=15)''])]"
  by (simp add: listed_channels_def List.map_filter_simps short_list_chart_def encode_def
      mark_def Chart_def shorthand_def)

lemma short_list_mismatch:
  "set (map StrV [''Low (SD=15)'']) \<noteq> set (column quality_noise_frame ''noise'')"
proof -
  have "StrV ''High (SD=45)'' \<in> set (column quality_noise_frame ''noise'')"
    by (simp add: column_def quality_noise_frame_def)
  moreover have "StrV ''High (SD=45)'' \<notin> set (map StrV [''Low (SD=15)''])"
    by simp
  ultimately show ?thesis by metis
qed

lemma short_list_runs:
  "run always_ok [DataFrame quality_noise_rows, DataFrame_of_columns [(''x'', [IntV 70])]]
     [Save (chart_add (short_list_chart 0) (threshold_line 1)) ''out.png'' 1] empty_world =
   Inr \<lparr>files = [''out.png'' \<mapsto> ''bytes of out.png''], stdout = [],
        attempted =
          [\<lparr>x_figure =
               resolve [DataFrame quality_noise_rows, DataFrame_of_columns [(''x'', [IntV 70])]]
                 (chart_add (short_list_chart 0) (threshold_line 1)),
             x_path = ''out.png'', x_format = PNG, x_scale_factor = 1\<rparr>]\<rparr>"
  by (simp del: One_nat_def
      add: format_of_def extension_def Let_def always_ok_def empty_world_def)

text \<open>An assignment through one reference is seen through every reference to the same
  frame and through no other.\<close>

lemma setitem_same: "a < length h \<Longrightarrow> setitem a c vs h ! a = set_column c vs (h ! a)"
  by (simp add: setitem_def)

lemma setitem_other: "a \<noteq> b \<Longrightarrow> setitem a c vs h ! b = h ! b"
  by (simp add: setitem_def)

lemma copy_frame_fresh: "copy_frame a h = (b, h') \<Longrightarrow> a < length h \<Longrightarrow> b \<noteq> a \<and> h' ! a = h ! a"
  by (auto simp: copy_frame_def new_frame_def nth_append)


section \<open>The claims\<close>

subsection \<open>C1\<close>

text \<open>
  Claim C1, as the code has it. On a run in which no export fails, the program makes
  exactly four export requests, in this order: the first figure to
  \<^verbatim>\<open>paper/figures/quality-x-noise.png\<close> as PNG with scale factor 2.0 and to
  \<^verbatim>\<open>paper/figures/quality-x-noise.pdf\<close> as PDF, then the second figure to
  \<^verbatim>\<open>paper/figures/strategy-comparison.png\<close> as PNG with scale factor 2.0 and to
  \<^verbatim>\<open>paper/figures/strategy-comparison.pdf\<close> as PDF (the PDF calls pass no scale
  factor, so the default 1 applies). Afterwards each of these four paths holds what the
  exporter produced for it, whatever it held before, and every other path is unchanged.
  The paths are relative to the working directory and lie in \<^verbatim>\<open>paper/figures/\<close>.
\<close>

theorem C1_output_files:
  assumes "list_all (\<lambda>rq. ex rq = Inr (out rq)) (planned fr)"
  shows "\<exists>p w'. build fr = Inr p \<and> main fr ex w = Inr w'
           \<and> attempted w' = attempted w @ planned fr
           \<and> map (\<lambda>rq. (x_path rq, x_format rq, x_scale_factor rq)) (planned fr) =
               [(''paper/figures/quality-x-noise.png'', PNG, 2),
                (''paper/figures/quality-x-noise.pdf'', PDF, 1),
                (''paper/figures/strategy-comparison.png'', PNG, 2),
                (''paper/figures/strategy-comparison.pdf'', PDF, 1)]
           \<and> map x_figure (planned fr) =
               [resolve (p_heap p) (p_fig1 p), resolve (p_heap p) (p_fig1 p),
                resolve (p_heap p) (p_fig2 p), resolve (p_heap p) (p_fig2 p)]
           \<and> files w' = (files w)
                   (''paper/figures/quality-x-noise.png'' \<mapsto> out (planned fr ! 0),
                    ''paper/figures/quality-x-noise.pdf'' \<mapsto> out (planned fr ! 1),
                    ''paper/figures/strategy-comparison.png'' \<mapsto> out (planned fr ! 2),
                    ''paper/figures/strategy-comparison.pdf'' \<mapsto> out (planned fr ! 3))"
  unfolding build_result main_succeeds [OF assms]
  by (simp del: One_nat_def add: planned_summary planned_figures)

text \<open>The exporter that always succeeds, run where the first file already exists: the
  old content is replaced and exactly the four paths exist afterwards.\<close>

theorem C1_output_files_witness:
  "list_all (\<lambda>rq. always_ok rq = Inr (''bytes of '' @ x_path rq)) (planned plain_repr)
   \<and> files stale_world ''paper/figures/quality-x-noise.png'' = Some ''old''
   \<and> (\<exists>w'. main plain_repr always_ok stale_world = Inr w'
         \<and> files w' ''paper/figures/quality-x-noise.png'' =
             Some ''bytes of paper/figures/quality-x-noise.png''
         \<and> dom (files w') =
             {''paper/figures/quality-x-noise.png'', ''paper/figures/quality-x-noise.pdf'',
              ''paper/figures/strategy-comparison.png'',
              ''paper/figures/strategy-comparison.pdf''})"
proof -
  have ok: "list_all (\<lambda>rq. always_ok rq = Inr (''bytes of '' @ x_path rq)) (planned plain_repr)"
    by (rule always_ok_planned)
  from C1_output_files [OF ok, of stale_world]
  obtain w' where m: "main plain_repr always_ok stale_world = Inr w'"
    and f: "files w' = (files stale_world)
                   (''paper/figures/quality-x-noise.png'' \<mapsto>
                      ''bytes of '' @ x_path (planned plain_repr ! 0),
                    ''paper/figures/quality-x-noise.pdf'' \<mapsto>
                      ''bytes of '' @ x_path (planned plain_repr ! 1),
                    ''paper/figures/strategy-comparison.png'' \<mapsto>
                      ''bytes of '' @ x_path (planned plain_repr ! 2),
                    ''paper/figures/strategy-comparison.pdf'' \<mapsto>
                      ''bytes of '' @ x_path (planned plain_repr ! 3))"
    by blast
  have old: "files stale_world ''paper/figures/quality-x-noise.png'' = Some ''old''"
    by (simp add: stale_world_def)
  have new: "files w' ''paper/figures/quality-x-noise.png'' =
             Some ''bytes of paper/figures/quality-x-noise.png''"
    unfolding f by (simp add: planned_eq)
  have d: "dom (files w') =
             {''paper/figures/quality-x-noise.png'', ''paper/figures/quality-x-noise.pdf'',
              ''paper/figures/strategy-comparison.png'',
              ''paper/figures/strategy-comparison.pdf''}"
    unfolding f by (auto simp add: stale_world_def)
  from ok old m new d show ?thesis by blast
qed

text \<open>
  The paths are not the bare file names: on a run from an empty file system in which
  every export succeeds, the requested paths differ from the four bare names and
  nothing is written at \<^verbatim>\<open>quality-x-noise.png\<close>.
\<close>

theorem C1_paths_counterexample:
  "map x_path (attempted (final_world (main plain_repr always_ok empty_world))) \<noteq>
     [''quality-x-noise.png'', ''quality-x-noise.pdf'', ''strategy-comparison.png'',
      ''strategy-comparison.pdf'']
   \<and> files (final_world (main plain_repr always_ok empty_world)) ''quality-x-noise.png'' = None
   \<and> raised (main plain_repr always_ok empty_world) = None"
  unfolding main_succeeds [OF always_ok_planned]
  by (simp add: final_world_def raised_def empty_world_def planned_eq)

subsection \<open>C2\<close>

text \<open>
  Claim C2. The strategy table has four rows, and each of the three layers of the second
  figure encodes \<open>x\<close> as the strategy sorted by the field \<^verbatim>\<open>expected\<close>, descending.
  Under either aggregate the order of the bars is Two Very Good, Three Decent, Two Good,
  One Excellent, that is the strategies by expected value 0.82, 0.60, 0.57, 0.56.
\<close>

theorem C2_bar_order:
  "\<exists>p. build fr = Inr p
     \<and> map (\<lambda>l. channel_domain op (resolve_layer (p_heap p) l) ''x'') (f_layers (p_fig2 p)) =
         [Some [StrV ''Two Very Good'', StrV ''Three Decent'', StrV ''Two Good'', StrV ''One Excellent''],
          Some [StrV ''Two Very Good'', StrV ''Three Decent'', StrV ''Two Good'', StrV ''One Excellent''],
          Some [StrV ''Two Very Good'', StrV ''Three Decent'', StrV ''Two Good'', StrV ''One Excellent'']]
     \<and> map (\<lambda>r. (cell r ''strategy'', cell r ''expected'')) (rows_of (p_heap p ! p_strategy_data p)) =
         [(StrV ''Two Very Good'', FloatV 0.82), (StrV ''Three Decent'', FloatV 0.60),
          (StrV ''Two Good'', FloatV 0.57), (StrV ''One Excellent'', FloatV 0.56)]"
  unfolding build_result
  by (simp add: fig2_x_domains final_heap_nth rows_of_strategy_frame strategy_expected)

subsection \<open>C3\<close>

text \<open>
  Claim C3, as the code has it. One channel of the program carries an explicit list of
  categories: the colour channel of the line chart of the first figure, bound to the
  field \<^verbatim>\<open>noise\<close>, with the list Low (SD=15), Medium (SD=30), High (SD=45). The list has
  no duplicates and its set of values is the set of values of \<^verbatim>\<open>noise\<close> in the bound
  frame, whose distinct values are these three; so the legend shows exactly these three
  categories in this order. The second figure has no channel with an explicit list. The
  code itself makes no check of a list against the data and has no error for a mismatch.
\<close>

theorem C3_ordering_covers_categories:
  "\<exists>p. build fr = Inr p
     \<and> concat (map listed_channels (f_layers (resolve (p_heap p) (p_fig1 p)))) =
         [(DataFrame quality_noise_rows, ''noise'',
           [''Low (SD=15)'', ''Medium (SD=30)'', ''High (SD=45)''])]
     \<and> concat (map listed_channels (f_layers (resolve (p_heap p) (p_fig2 p)))) = []
     \<and> distinct [''Low (SD=15)'', ''Medium (SD=30)'', ''High (SD=45)'']
     \<and> set (map StrV [''Low (SD=15)'', ''Medium (SD=30)'', ''High (SD=45)'']) =
         set (column (DataFrame quality_noise_rows) ''noise'')
     \<and> distinct_in_order (column (DataFrame quality_noise_rows) ''noise'') =
         [StrV ''Low (SD=15)'', StrV ''Medium (SD=30)'', StrV ''High (SD=45)'']
     \<and> channel_domain op (resolve_layer (p_heap p) (f_layers (p_fig1 p) ! 0)) ''color'' =
         Some [StrV ''Low (SD=15)'', StrV ''Medium (SD=30)'', StrV ''High (SD=45)'']"
proof -
  have l1: "concat (map listed_channels (f_layers (resolve final_heap (fig1 0 1 2)))) =
         [(quality_noise_frame, ''noise'',
           [''Low (SD=15)'', ''Medium (SD=30)'', ''High (SD=45)''])]"
    by (simp del: One_nat_def
        add: resolve_layers fig1_layers listed_channels_resolve listed_channels_layers
        final_heap_nth)
  have l2: "concat (map listed_channels (f_layers (resolve final_heap (fig2 3 4)))) = []"
    by (simp add: resolve_layers fig2_layers listed_channels_resolve listed_channels_layers)
  have first: "f_layers (fig1 0 1 2) ! 0 = quality_noise_chart 0"
    by (simp add: fig1_layers)
  show ?thesis
    unfolding build_result
    using noise_set l2
    by (simp del: One_nat_def
        add: l1 DataFrame_quality_noise noise_values first legend_domain)
qed

text \<open>
  A list that leaves out categories of the data raises nothing: the line chart with the
  list Low (SD=15) alone, over the same frame, is built, overlaid and exported without
  an exception.
\<close>

theorem C3_no_ordering_check_counterexample:
  "listed_channels
     (resolve_layer [DataFrame quality_noise_rows, DataFrame_of_columns [(''x'', [IntV 70])]]
        (short_list_chart 0)) =
     [(DataFrame quality_noise_rows, ''noise'', [''Low (SD=15)''])]
   \<and> set (map StrV [''Low (SD=15)'']) \<noteq> set (column (DataFrame quality_noise_rows) ''noise'')
   \<and> raised
       (run always_ok [DataFrame quality_noise_rows, DataFrame_of_columns [(''x'', [IntV 70])]]
          [Save (chart_add (short_list_chart 0) (threshold_line 1)) ''out.png'' 1]
          empty_world) = None"
  unfolding short_list_runs
  using short_list_mismatch
  by (simp add: listed_channels_resolve short_list_listed DataFrame_quality_noise raised_def)

subsection \<open>C4\<close>

text \<open>
  Claim C4. Overlaying keeps the order given: \<open>(A + B) + C\<close> has the layers \<open>[A, B, C]\<close>,
  and neither \<^verbatim>\<open>configure\<close> nor \<^verbatim>\<open>properties\<close> changes the layers. The first figure has
  the layers line chart, threshold rule, threshold label, and the second has bars, value
  labels, info labels, in this order.
\<close>

theorem C4_layer_order:
  "f_layers (layer_add (chart_add A B) C) = [A, B, C]
   \<and> f_layers (configure part ps fig) = f_layers fig
   \<and> f_layers (figure_properties qs fig) = f_layers fig
   \<and> (\<exists>p. build fr = Inr p
        \<and> f_layers (p_fig1 p) =
            [quality_noise_chart (p_quality_noise_data p), threshold_line 1, threshold_label 2]
        \<and> map l_mark (f_layers (p_fig1 p)) = [''line'', ''rule'', ''text'']
        \<and> f_layers (p_fig2 p) =
            [bars (p_strategy_data p), text_labels (p_strategy_data p),
             info_labels (p_info_data p)]
        \<and> map l_mark (f_layers (p_fig2 p)) = [''bar'', ''text'', ''text''])"
  by (simp add: build_result layer_add_def chart_add_def configure_def figure_properties_def
      fig1_def fig2_def quality_noise_chart_def threshold_line_def threshold_label_def
      bars_def text_labels_def info_labels_def mark_def encode_def properties_def Chart_def)

subsection \<open>C5\<close>

text \<open>
  Claim C5, as the code has it. If the \<open>n\<close>-th export of the run fails and the ones
  before it succeed, the run ends there with the very exception the exporter raised: the
  export requests made are the first \<open>n + 1\<close> planned ones, each once (the planned paths
  are distinct, so the failing one is not tried again and none after it is tried), and
  no file other than those of the exports that succeeded is changed. The script does not
  wrap the exception: it has no \<^verbatim>\<open>ExportError\<close> and adds neither a path nor a figure name.
\<close>

theorem C5_abort_on_failure:
  assumes "n < length (planned fr)"
    and "ex (planned fr ! n) = Inl e"
    and "\<forall>k<n. \<exists>b. ex (planned fr ! k) = Inr b"
  shows "\<exists>w'. main fr ex w = Inl (e, w')
           \<and> raised (main fr ex w) = Some e
           \<and> attempted w' = attempted w @ take (Suc n) (planned fr)
           \<and> distinct (map x_path (planned fr))
           \<and> (\<forall>q. q \<notin> x_path ` set (take n (planned fr)) \<longrightarrow> files w' q = files w q)"
proof -
  from run_fails_at [OF assms [unfolded planned_requests], of w]
  obtain w' where "main fr ex w = Inl (e, w')"
    and "attempted w' = attempted w @ take (Suc n) (planned fr)"
    and "\<forall>q. q \<notin> x_path ` set (take n (planned fr)) \<longrightarrow> files w' q = files w q"
    unfolding main_eq_run planned_requests by blast
  then show ?thesis
    using planned_paths_distinct [of fr] by (simp add: raised_def)
qed

text \<open>When writing the third file is denied: two files are written, the third export
  is requested once and fails, the fourth is never requested.\<close>

theorem C5_abort_on_failure_witness:
  "(2::nat) < length (planned plain_repr)
   \<and> denies_strategy_png (planned plain_repr ! 2) =
       Inl (Exn ''PermissionError''
              ''[Errno 13] Permission denied: paper/figures/strategy-comparison.png'')
   \<and> denies_strategy_png (planned plain_repr ! 0) =
       Inr ''bytes of paper/figures/quality-x-noise.png''
   \<and> denies_strategy_png (planned plain_repr ! 1) =
       Inr ''bytes of paper/figures/quality-x-noise.pdf''
   \<and> (\<exists>w'. main plain_repr denies_strategy_png empty_world =
              Inl (Exn ''PermissionError''
                     ''[Errno 13] Permission denied: paper/figures/strategy-comparison.png'', w')
         \<and> map x_path (attempted w') =
             [''paper/figures/quality-x-noise.png'', ''paper/figures/quality-x-noise.pdf'',
              ''paper/figures/strategy-comparison.png'']
         \<and> files w' ''paper/figures/strategy-comparison.png'' = None
         \<and> files w' ''paper/figures/strategy-comparison.pdf'' = None)"
proof -
  have n: "(2::nat) < length (planned plain_repr)"
    by (simp add: denies_strategy_png_planned)
  from C5_abort_on_failure [OF n denies_strategy_png_planned(1,2), of empty_world]
  obtain w' where m: "main plain_repr denies_strategy_png empty_world =
              Inl (Exn ''PermissionError''
                     ''[Errno 13] Permission denied: paper/figures/strategy-comparison.png'', w')"
    and a: "attempted w' = attempted empty_world @ take (Suc 2) (planned plain_repr)"
    and f: "\<forall>q. q \<notin> x_path ` set (take 2 (planned plain_repr)) \<longrightarrow>
                files w' q = files empty_world q"
    by blast
  have paths: "map x_path (attempted w') =
             [''paper/figures/quality-x-noise.png'', ''paper/figures/quality-x-noise.pdf'',
              ''paper/figures/strategy-comparison.png'']"
    unfolding a by (simp add: empty_world_def planned_eq)
  have none: "files w' ''paper/figures/strategy-comparison.png'' = None"
    "files w' ''paper/figures/strategy-comparison.pdf'' = None"
    using f by (simp_all add: planned_eq empty_world_def)
  have run: "\<exists>w'. main plain_repr denies_strategy_png empty_world =
              Inl (Exn ''PermissionError''
                     ''[Errno 13] Permission denied: paper/figures/strategy-comparison.png'', w')
         \<and> map x_path (attempted w') =
             [''paper/figures/quality-x-noise.png'', ''paper/figures/quality-x-noise.pdf'',
              ''paper/figures/strategy-comparison.png'']
         \<and> files w' ''paper/figures/strategy-comparison.png'' = None
         \<and> files w' ''paper/figures/strategy-comparison.pdf'' = None"
    by (rule exI [of _ w'], intro conjI) (rule m, rule paths, rule none(1), rule none(2))
  have first: "denies_strategy_png (planned plain_repr ! 0) =
       Inr ''bytes of paper/figures/quality-x-noise.png''"
    and second: "denies_strategy_png (planned plain_repr ! 1) =
       Inr ''bytes of paper/figures/quality-x-noise.pdf''"
    by (simp_all add: planned_eq denies_strategy_png_def)
  show ?thesis
    by (intro conjI)
       (rule n, rule denies_strategy_png_planned(1), rule first, rule second, rule run)
qed

text \<open>
  The exception that ends the run is the exporter's own, not an \<^verbatim>\<open>ExportError\<close>: when
  writing the third file is denied, the run ends with the \<^verbatim>\<open>PermissionError\<close> itself.
\<close>

theorem C5_export_error_counterexample:
  "map_option exn_class (raised (main plain_repr denies_strategy_png empty_world)) =
     Some ''PermissionError''
   \<and> map_option exn_class (raised (main plain_repr denies_strategy_png empty_world)) \<noteq>
       Some ''ExportError''"
  unfolding main_denied by (simp add: exn_class_def)

subsection \<open>C6\<close>

text \<open>
  Claim C6. Every one of the 15 rows of the quality-noise literal has the keys quality,
  noise, probability, order, and every one of the 4 rows of the strategy literal has the
  keys strategy, expected, papers, quality. The script is built without an exception,
  and for each of the six layers every field its encoding names is a key of every row of
  the frame the layer is bound to.
\<close>

theorem C6_schema:
  "list_all (\<lambda>r. map fst r = [''quality'', ''noise'', ''probability'', ''order''])
     quality_noise_rows
   \<and> length quality_noise_rows = 15
   \<and> list_all (\<lambda>r. map fst r = [''strategy'', ''expected'', ''papers'', ''quality''])
       strategy_rows
   \<and> length strategy_rows = 4
   \<and> (\<exists>p. build fr = Inr p
        \<and> map encoded_fields (f_layers (p_fig1 p) @ f_layers (p_fig2 p)) =
            [[''quality'', ''probability'', ''noise''], [''x''], [''x'', ''y'', ''text''],
             [''strategy'', ''expected''], [''strategy'', ''expected'', ''expected''],
             [''strategy'', ''y_pos'', ''info'']]
        \<and> list_all
            (\<lambda>l. list_all (\<lambda>r. list_all (\<lambda>f. f \<in> set (map fst r)) (encoded_fields l))
                     (rows_of (l_data l)))
            (f_layers (resolve (p_heap p) (p_fig1 p)) @ f_layers (resolve (p_heap p) (p_fig2 p)))
        \<and> map (\<lambda>l. length (rows_of (l_data l)))
            (f_layers (resolve (p_heap p) (p_fig1 p)) @ f_layers (resolve (p_heap p) (p_fig2 p)))
          = [15, 1, 1, 4, 4, 4])"
proof -
  have lens: "map (\<lambda>l. length (rows_of (l_data l)))
            (f_layers (resolve final_heap (fig1 0 1 2)) @ f_layers (resolve final_heap (fig2 3 4)))
          = [15, 1, 1, 4, 4, 4]"
    by (simp add: resolve_layers fig1_layers fig2_layers l_data_resolve layer_data
        final_heap_nth final_heap_Suc0 rows_of_strategy_frame rows_of_quality_noise_frame
        rows_of_small_frames length_rows length_rows_info)
  show ?thesis
    unfolding build_result
    using fields_present lens
    by (simp add: keys_quality_noise_rows keys_strategy_rows length_rows fig1_layers
        fig2_layers encoded_fields_layers)
qed

subsection \<open>C7\<close>

text \<open>
  Claim C7. The info label depends on the fields \<^verbatim>\<open>papers\<close> and \<^verbatim>\<open>quality\<close> of the row
  only: for a row with the integers \<open>p\<close> and \<open>q\<close> there it is \<open>p\<close>, then \<^verbatim>\<open> papers\<close> when
  \<open>p > 1\<close> and \<^verbatim>\<open> paper\<close> otherwise, then \<^verbatim>\<open>, Q=\<close> and \<open>q\<close>. On the strategy table the
  labels are 2 papers, Q=78; 3 papers, Q=68; 2 papers, Q=72; 1 paper, Q=85.
\<close>

theorem C7_info_label:
  assumes "map_of r ''papers'' = Some (IntV p)" and "map_of r ''quality'' = Some (IntV q)"
  shows "info_text fr r =
           Inr (str_int p @ (if p > 1 then '' papers'' else '' paper'') @ '', Q='' @ str_int q)
         \<and> apply_rows (info_text fr) strategy_frame =
             Inr [StrV ''2 papers, Q=78'', StrV ''3 papers, Q=68'', StrV ''2 papers, Q=72'',
                  StrV ''1 paper, Q=85'']"
  using assms
  by (simp add: info_text_def getitem_def apply_rows_def rows_of_strategy_frame
      info_text_strategy_rows)

text \<open>The rows One Excellent and Three Decent.\<close>

theorem C7_info_label_witness:
  "map_of (strategy_rows ! 3) ''papers'' = Some (IntV 1)
   \<and> map_of (strategy_rows ! 3) ''quality'' = Some (IntV 85)
   \<and> info_text plain_repr (strategy_rows ! 3) = Inr ''1 paper, Q=85''
   \<and> map_of (strategy_rows ! 1) ''papers'' = Some (IntV 3)
   \<and> map_of (strategy_rows ! 1) ''quality'' = Some (IntV 68)
   \<and> info_text plain_repr (strategy_rows ! 1) = Inr ''3 papers, Q=68''"
  using C7_info_label [of "strategy_rows ! 3" 1 85 plain_repr]
        C7_info_label [of "strategy_rows ! 1" 3 68 plain_repr]
  by (simp add: strategy_rows_def str_int_def digit_char_def)

subsection \<open>C8\<close>

text \<open>
  Claim C8. After line 136 the frame that \<^verbatim>\<open>quality_noise_data\<close> refers to and the frame
  that \<^verbatim>\<open>strategy_data\<close> refers to are the frames they were built as, with their original
  rows; the strategy frame has the columns strategy, expected, papers, quality only. The
  two column assignments went to the copy, a different frame, which has the two further
  columns info and y_pos; the bars and the value labels refer to the original and the
  info labels to the copy. The exports read the store and do not change it.
\<close>

theorem C8_frames_unchanged:
  "\<exists>p. build fr = Inr p
     \<and> p_heap p ! p_quality_noise_data p = DataFrame quality_noise_rows
     \<and> rows_of (p_heap p ! p_quality_noise_data p) = quality_noise_rows
     \<and> p_heap p ! p_strategy_data p = DataFrame strategy_rows
     \<and> rows_of (p_heap p ! p_strategy_data p) = strategy_rows
     \<and> columns (p_heap p ! p_strategy_data p) = [''strategy'', ''expected'', ''papers'', ''quality'']
     \<and> p_info_data p \<noteq> p_strategy_data p
     \<and> columns (p_heap p ! p_info_data p) =
         [''strategy'', ''expected'', ''papers'', ''quality'', ''info'', ''y_pos'']
     \<and> map l_data (f_layers (p_fig1 p)) = [p_quality_noise_data p, 1, 2]
     \<and> map l_data (f_layers (p_fig2 p)) = [p_strategy_data p, p_strategy_data p, p_info_data p]"
proof -
  have h0: "final_heap ! 0 = quality_noise_frame" and h3: "final_heap ! 3 = strategy_frame"
    and h4: "final_heap ! 4 = info_frame"
    by (simp_all add: final_heap_def)
  show ?thesis
    by (simp add: build_result h0 h3 h4 DataFrame_strategy DataFrame_quality_noise
        rows_of_strategy_frame rows_of_quality_noise_frame columns_strategy_frame
        columns_info_frame fig1_data fig2_data)
qed

subsection \<open>C9\<close>

text \<open>
  Claim C9. The first figure declares the domain 45 to 95 for \<open>x\<close> and 0 to 100 for \<open>y\<close>,
  the second 0 to 1 for \<open>y\<close>. Every value a layer of the first figure puts on \<open>x\<close> (the 15
  qualities and the threshold 70 of the rule and of its label) and on \<open>y\<close> (the 15
  probabilities and the 92 of the threshold label) lies in the domain, and so does every
  value a layer of the second figure puts on \<open>y\<close> (the expected values and the label
  height 0.08).
\<close>

theorem C9_values_in_domain:
  "\<exists>p. build fr = Inr p
     \<and> scale_domain (p_fig1 p) ''x'' = Some (45, 95)
     \<and> scale_domain (p_fig1 p) ''y'' = Some (0, 100)
     \<and> scale_domain (p_fig2 p) ''y'' = Some (0, 1)
     \<and> list_all (\<lambda>l. list_all (in_range (45, 95)) (channel_values l ''x''))
         (f_layers (resolve (p_heap p) (p_fig1 p)))
     \<and> list_all (\<lambda>l. list_all (in_range (0, 100)) (channel_values l ''y''))
         (f_layers (resolve (p_heap p) (p_fig1 p)))
     \<and> list_all (\<lambda>l. list_all (in_range (0, 1)) (channel_values l ''y''))
         (f_layers (resolve (p_heap p) (p_fig2 p)))
     \<and> map (\<lambda>l. length (channel_values l ''x'')) (f_layers (resolve (p_heap p) (p_fig1 p)))
         = [15, 1, 1]
     \<and> map (\<lambda>l. length (channel_values l ''y'')) (f_layers (resolve (p_heap p) (p_fig1 p)))
         = [15, 0, 1]
     \<and> channel_values (f_layers (resolve (p_heap p) (p_fig1 p)) ! 2) ''y'' = [IntV 92]
     \<and> map (\<lambda>l. channel_values l ''y'') (f_layers (resolve (p_heap p) (p_fig2 p))) =
         [[FloatV 0.82, FloatV 0.60, FloatV 0.57, FloatV 0.56],
          [FloatV 0.82, FloatV 0.60, FloatV 0.57, FloatV 0.56],
          [FloatV 0.08, FloatV 0.08, FloatV 0.08, FloatV 0.08]]"
  unfolding build_result
  by (simp del: One_nat_def
      add: scale_domains fig1_within fig2_within fig1_value_counts channel_values_fig2)

subsection \<open>C10\<close>

text \<open>
  Claim C10. The subtitle of the second figure speaks of 46% more expected publications.
  In the strategy table the highest expected value is 0.82 (Two Very Good, quality 78)
  and the highest quality is 85 (One Excellent, expected 0.56);
  \<open>(0.82 - 0.56) / 0.56\<close> is 46 per cent when rounded to a whole number.
\<close>

theorem C10_subtitle_consistent:
  "\<exists>p. build fr = Inr p
     \<and> map_of (f_props (p_fig2 p)) ''title'' =
         Some (Title ''Perverse Incentives: Quantity Over Quality''
                 ''Lower quality strategy yields 46% more expected publications'')
     \<and> map (\<lambda>r. (cell r ''strategy'', cell r ''expected'', cell r ''quality''))
           (rows_of (p_heap p ! p_strategy_data p)) =
         [(StrV ''Two Very Good'', FloatV 0.82, IntV 78),
          (StrV ''Three Decent'', FloatV 0.60, IntV 68),
          (StrV ''Two Good'', FloatV 0.57, IntV 72),
          (StrV ''One Excellent'', FloatV 0.56, IntV 85)]
     \<and> Max (set (List.map_filter num_of (column (p_heap p ! p_strategy_data p) ''expected'')))
         = 0.82
     \<and> Max (set (List.map_filter num_of (column (p_heap p ! p_strategy_data p) ''quality'')))
         = 85
     \<and> round (100 * ((0.82::real) - 0.56) / 0.56) = 46"
  unfolding build_result
  using ratio_rounds
  by (simp add: fig2_title final_heap_nth rows_of_strategy_frame strategy_table
      strategy_maxima)

end
